theory Spec2Isabelle
  imports Main "HOL-Library.Char_ord" "HOL-Library.List_Lexorder"
begin

section \<open>JavaScript values used by \<open>src/index.js\<close>\<close>

text \<open>
  A JavaScript string is modelled as a \<^typ>\<open>string\<close>, the list of its code units. The
  texts the program handles (paths, ids, query keys and values, dates, hexadecimal
  digests) are ASCII, so a \<^typ>\<open>char\<close> holds a code unit, the UTF-8 encoding of a string
  is the string itself, and the order of \<open>HOL-Library.List_Lexorder\<close> over
  \<open>HOL-Library.Char_ord\<close> is the order of \<open>Array.prototype.sort()\<close> with no comparator.
  A property or variable that may hold \<open>undefined\<close> is a \<^typ>\<open>string option\<close>, \<open>None\<close>
  being \<open>undefined\<close>.
\<close>

datatype error = TypeError | CryptoError

text \<open>Truthiness of a string-or-undefined value: \<open>undefined\<close> and \<open>''\<close> are falsy.\<close>

definition truthy :: "string option \<Rightarrow> bool" where
  "truthy v = (case v of None \<Rightarrow> False | Some s \<Rightarrow> s \<noteq> [])"

text \<open>\<open>ToString\<close>, as applied by a template literal and by \<open>+\<close>.\<close>

definition toStr :: "string option \<Rightarrow> string" where
  "toStr v = (case v of None \<Rightarrow> ''undefined'' | Some s \<Rightarrow> s)"

text \<open>\<open>Array.prototype.join\<close>: an \<open>undefined\<close> element contributes the empty string.\<close>

definition elem :: "string option \<Rightarrow> string" where
  "elem v = (case v of None \<Rightarrow> [] | Some s \<Rightarrow> s)"

fun join :: "string \<Rightarrow> string list \<Rightarrow> string" where
  "join sep [] = []"
| "join sep [x] = x"
| "join sep (x # y # ys) = x @ sep @ join sep (y # ys)"

text \<open>
  \<open>String.prototype.replace(searchString, replaceValue)\<close> with two strings: only the
  first occurrence is replaced, and the replacement text is expanded by
  \<open>GetSubstitution\<close>: \<open>$$\<close> is a dollar sign, \<open>$&\<close> the matched text, \<open>$`\<close> the text
  before the match, \<open>$'\<close> the text after it. There are no captures for a string pattern, so
  \<open>$1\<close> and \<open>$<\<close> stay as they are.
\<close>

fun splitAtFirst :: "string \<Rightarrow> string \<Rightarrow> (string \<times> string) option" where
  "splitAtFirst pat [] = (if pat = [] then Some ([], []) else None)"
| "splitAtFirst pat (c # cs) =
     (if take (length pat) (c # cs) = pat then Some ([], drop (length pat) (c # cs))
      else (case splitAtFirst pat cs of
              None \<Rightarrow> None
            | Some (pre, post) \<Rightarrow> Some (c # pre, post)))"

fun getSubstitution :: "string \<Rightarrow> string \<Rightarrow> string \<Rightarrow> string \<Rightarrow> string" where
  "getSubstitution matched pre post [] = []"
| "getSubstitution matched pre post [c] = [c]"
| "getSubstitution matched pre post (c # d # r) =
     (if c = CHR ''$'' \<and> d = CHR ''$'' then CHR ''$'' # getSubstitution matched pre post r
      else if c = CHR ''$'' \<and> d = CHR ''&'' then matched @ getSubstitution matched pre post r
      else if c = CHR ''$'' \<and> d = CHR 0x60 then pre @ getSubstitution matched pre post r
      else if c = CHR ''$'' \<and> d = CHR 0x27 then post @ getSubstitution matched pre post r
      else c # getSubstitution matched pre post (d # r))"

definition replace :: "string \<Rightarrow> string \<Rightarrow> string \<Rightarrow> string" where
  "replace s pat repl =
     (case splitAtFirst pat s of
        None \<Rightarrow> s
      | Some (pre, post) \<Rightarrow> pre @ getSubstitution pat pre post repl @ post)"

text \<open>\<open>s.slice(0, -1)\<close>: all but the last code unit; the empty string stays empty.\<close>

definition slice0m1 :: "string \<Rightarrow> string" where
  "slice0m1 s = butlast s"

section \<open>The clock and \<open>moment().format(...)\<close>\<close>

text \<open>
  \<open>moment\<close> is a third-party package; what the program uses of it is modelled here from
  its documented behaviour. \<open>moment()\<close> reads the host's clock and gives a moment in
  local mode: its fields are those of the instant shifted by the host zone's offset from
  UTC. Every call reads the clock anew, so the world carries the sequence of readings
  (milliseconds since the epoch) and the number of reads made so far.
\<close>

record world =
  clock :: "nat \<Rightarrow> int"
  reads :: nat
  utcOffset :: "int \<Rightarrow> int"

record moment_t =
  instant :: int
  offsetMinutes :: int

definition moment :: "world \<Rightarrow> moment_t \<times> world" where
  "moment w =
     (let t = clock w (reads w)
      in (\<lparr>instant = t, offsetMinutes = utcOffset w t\<rparr>, w\<lparr>reads := Suc (reads w)\<rparr>))"

text \<open>The fields of a moment: local milliseconds, days since 1970-01-01, civil date, time of day.\<close>

definition localMillis :: "moment_t \<Rightarrow> int" where
  "localMillis m = instant m + offsetMinutes m * 60000"

definition dayNumber :: "moment_t \<Rightarrow> int" where
  "dayNumber m = localMillis m div 86400000"

definition secondOfDay :: "moment_t \<Rightarrow> int" where
  "secondOfDay m = (localMillis m mod 86400000) div 1000"

text \<open>The proleptic Gregorian date of a day number, as (year, month 1..12, day 1..31).\<close>

definition civilFromDays :: "int \<Rightarrow> int \<times> int \<times> int" where
  "civilFromDays z0 =
     (let z = z0 + 719468;
          era = z div 146097;
          doe = z mod 146097;
          yoe = (doe - doe div 1460 + doe div 36524 - doe div 146096) div 365;
          doy = doe - (365 * yoe + yoe div 4 - yoe div 100);
          mp = (5 * doy + 2) div 153;
          d = doy - (153 * mp + 2) div 5 + 1;
          mo = (if mp < 10 then mp + 3 else mp - 9);
          y = yoe + era * 400 + (if mo \<le> 2 then 1 else 0)
      in (y, mo, d))"

definition year :: "moment_t \<Rightarrow> int" where
  "year m = fst (civilFromDays (dayNumber m))"

definition month :: "moment_t \<Rightarrow> int" where
  "month m = fst (snd (civilFromDays (dayNumber m)))"

definition dayOfMonth :: "moment_t \<Rightarrow> int" where
  "dayOfMonth m = snd (snd (civilFromDays (dayNumber m)))"

definition weekday :: "moment_t \<Rightarrow> int" where
  "weekday m = (dayNumber m + 4) mod 7"

definition hours :: "moment_t \<Rightarrow> int" where
  "hours m = secondOfDay m div 3600"

definition minutes :: "moment_t \<Rightarrow> int" where
  "minutes m = (secondOfDay m mod 3600) div 60"

definition seconds :: "moment_t \<Rightarrow> int" where
  "seconds m = secondOfDay m mod 60"

text \<open>Decimal digits of a natural number, and moment's \<open>zeroFill\<close>.\<close>

definition digit :: "nat \<Rightarrow> char" where
  "digit n = ''0123456789'' ! n"

function decimal :: "nat \<Rightarrow> string" where
  "decimal n = (if n < 10 then [digit n] else decimal (n div 10) @ [digit (n mod 10)])"
  by pat_completeness auto
termination
  by (relation "measure id") auto

declare decimal.simps [simp del]

definition zeroFill :: "int \<Rightarrow> nat \<Rightarrow> string" where
  "zeroFill n width =
     (let a = decimal (nat \<bar>n\<bar>)
      in (if n < 0 then ''-'' else []) @ replicate (width - length a) CHR ''0'' @ a)"

text \<open>The names of the default (English) locale.\<close>

definition weekdaysShort :: "string list" where
  "weekdaysShort = [''Sun'', ''Mon'', ''Tue'', ''Wed'', ''Thu'', ''Fri'', ''Sat'']"

definition monthsShort :: "string list" where
  "monthsShort = [''Jan'', ''Feb'', ''Mar'', ''Apr'', ''May'', ''Jun'',
                  ''Jul'', ''Aug'', ''Sep'', ''Oct'', ''Nov'', ''Dec'']"

text \<open>
  The format tokens the program's three patterns consist of. Any other character of a
  pattern (here the comma, the blank, the colon and the letter T) is copied.
\<close>

datatype token = Tddd | TDD | TMMM | TMM | TYYYY | THH | Tmm | Tss | Lit string

fun formatToken :: "moment_t \<Rightarrow> token \<Rightarrow> string" where
  "formatToken m Tddd = weekdaysShort ! nat (weekday m)"
| "formatToken m TDD = zeroFill (dayOfMonth m) 2"
| "formatToken m TMMM = monthsShort ! nat (month m - 1)"
| "formatToken m TMM = zeroFill (month m) 2"
| "formatToken m TYYYY = zeroFill (year m) 4"
| "formatToken m THH = zeroFill (hours m) 2"
| "formatToken m Tmm = zeroFill (minutes m) 2"
| "formatToken m Tss = zeroFill (seconds m) 2"
| "formatToken m (Lit s) = s"

definition format :: "moment_t \<Rightarrow> token list \<Rightarrow> string" where
  "format m pattern = concat (map (formatToken m) pattern)"

text \<open>\<open>'ddd, DD MMM YYYY HH:mm:ss'\<close>, \<open>'YYYYMMDD'\<close> and \<open>'YYYYMMDDTHHmmss'\<close>.\<close>

definition usblPattern :: "token list" where
  "usblPattern = [Tddd, Lit '', '', TDD, Lit '' '', TMMM, Lit '' '', TYYYY, Lit '' '',
                  THH, Lit '':'', Tmm, Lit '':'', Tss]"

definition shortPattern :: "token list" where
  "shortPattern = [TYYYY, TMM, TDD]"

definition longPattern :: "token list" where
  "longPattern = [TYYYY, TMM, TDD, Lit ''T'', THH, Tmm, Tss]"

section \<open>The hash primitives of \<open>crypto\<close>\<close>

text \<open>
  Node's \<open>crypto\<close> module is a parameter of the model: SHA-256 and HMAC-SHA256 (key first,
  then message) as functions on byte strings that either give the raw digest or throw.
  A raw digest, a \<open>Buffer\<close> in the program, is a list of bytes and has the type of strings
  too. \<open>digest('hex')\<close> renders the raw digest in lowercase hexadecimal;
  \<open>digest(undefined)\<close> gives the raw bytes.
\<close>

record crypto =
  sha256 :: "string \<Rightarrow> error + string"
  hmacSha256 :: "string \<Rightarrow> string \<Rightarrow> error + string"

datatype encoding = Hex

definition hexDigit :: "nat \<Rightarrow> char" where
  "hexDigit n = ''0123456789abcdef'' ! n"

definition hex :: "string \<Rightarrow> string" where
  "hex bs = concat (map (\<lambda>b. [hexDigit (of_char b div 16), hexDigit (of_char b mod 16)]) bs)"

definition digest :: "encoding option \<Rightarrow> string \<Rightarrow> string" where
  "digest enc raw = (case enc of None \<Rightarrow> raw | Some Hex \<Rightarrow> hex raw)"

section \<open>\<open>SignatureFactory\<close>\<close>

record dates_t =
  usbldate :: string
  shortdate :: string
  longdate :: string

record headers_t =
  date :: "string option"
  Authorization :: "string option"

text \<open>
  The constructor sets the two keys and the host; \<open>url\<close>, \<open>method\<close>,
  \<open>queryParameters\<close>, \<open>dates\<close> and \<open>headers\<close> are \<open>undefined\<close> until a method assigns them.
\<close>

record signatureFactory =
  accessKey :: string
  secretKey :: string
  host :: string
  url :: "string option"
  method_f :: "string option"
  queryParameters :: "string option"
  dates :: "dates_t option"
  headers :: "headers_t option"

definition SignatureFactory :: "string \<Rightarrow> string \<Rightarrow> string \<Rightarrow> signatureFactory" where
  "SignatureFactory ak sk h =
     \<lparr>accessKey = ak, secretKey = sk, host = h, url = None, method_f = None,
      queryParameters = None, dates = None, headers = None\<rparr>"

definition setUrl :: "string \<Rightarrow> signatureFactory \<Rightarrow> signatureFactory" where
  "setUrl u f = f\<lparr>url := Some u\<rparr>"

definition setMethod :: "string \<Rightarrow> signatureFactory \<Rightarrow> signatureFactory" where
  "setMethod m f = f\<lparr>method_f := Some m\<rparr>"

text \<open>Reading \<open>this.dates.usbldate\<close> while \<open>this.dates\<close> is \<open>undefined\<close> throws a TypeError.\<close>

definition getCanonicalHeaders :: "signatureFactory \<Rightarrow> error + (string \<times> string)" where
  "getCanonicalHeaders f =
     (case dates f of
        None \<Rightarrow> Inl TypeError
      | Some d \<Rightarrow> Inr (''date:'' @ usbldate d, ''host:'' @ host f @ ''\<newline>''))"

definition hash :: "crypto \<Rightarrow> string \<Rightarrow> encoding option \<Rightarrow> error + string" where
  "hash c s enc = (case sha256 c s of Inl e \<Rightarrow> Inl e | Inr raw \<Rightarrow> Inr (digest enc raw))"

definition canonicalString :: "crypto \<Rightarrow> signatureFactory \<Rightarrow> error + string" where
  "canonicalString c f =
     (let queryStr = queryParameters f in
      case hash c [] (Some Hex) of
        Inl e \<Rightarrow> Inl e
      | Inr bodyHash \<Rightarrow>
          (case getCanonicalHeaders f of
             Inl e \<Rightarrow> Inl e
           | Inr (hdate, hhost) \<Rightarrow>
               Inr (join ''\<newline>''
                 [if truthy (method_f f) then toStr (method_f f) else ''GET'',
                  elem (url f),
                  elem queryStr,
                  hdate,
                  hhost,
                  ''date;host'',
                  bodyHash])))"

definition hmac :: "crypto \<Rightarrow> string \<Rightarrow> string \<Rightarrow> encoding option \<Rightarrow> error + string" where
  "hmac c key s enc = (case hmacSha256 c key s of Inl e \<Rightarrow> Inl e | Inr raw \<Rightarrow> Inr (digest enc raw))"

definition stringToSign :: "crypto \<Rightarrow> signatureFactory \<Rightarrow> error + string" where
  "stringToSign c f =
     (case dates f of
        None \<Rightarrow> Inl TypeError
      | Some d \<Rightarrow>
          (case canonicalString c f of
             Inl e \<Rightarrow> Inl e
           | Inr cs \<Rightarrow>
               (case hash c cs (Some Hex) of
                  Inl e \<Rightarrow> Inl e
                | Inr h \<Rightarrow>
                    Inr (join ''\<newline>''
                      [''USBL1-HMAC-SHA256'',
                       longdate d,
                       shortdate d @ ''/'' @ ''usbl1_request'',
                       h]))))"

definition getSignature :: "crypto \<Rightarrow> signatureFactory \<Rightarrow> error + string" where
  "getSignature c f =
     (case dates f of
        None \<Rightarrow> Inl TypeError
      | Some d \<Rightarrow>
          (case hmac c (''USBL1'' @ secretKey f) (shortdate d) None of
             Inl e \<Rightarrow> Inl e
           | Inr kDate \<Rightarrow>
               (case hmac c kDate ''usbl1_request'' None of
                  Inl e \<Rightarrow> Inl e
                | Inr kSigning \<Rightarrow>
                    (case stringToSign c f of
                       Inl e \<Rightarrow> Inl e
                     | Inr sts \<Rightarrow> hmac c kSigning sts (Some Hex)))))"

definition authHeader :: "crypto \<Rightarrow> signatureFactory \<Rightarrow> error + string" where
  "authHeader c f =
     (case dates f of
        None \<Rightarrow> Inl TypeError
      | Some d \<Rightarrow>
          (case getSignature c f of
             Inl e \<Rightarrow> Inl e
           | Inr sg \<Rightarrow>
               Inr (join '', ''
                 [''USBL1-HMAC-SHA256 Credential='' @ accessKey f @ ''/'' @ shortdate d @ ''/''
                    @ ''usbl1_request'',
                  ''SignedHeaders='' @ ''date;host'',
                  ''Signature='' @ sg])))"

text \<open>Three calls of \<open>moment()\<close>, one for each representation, in the order of the source.\<close>

definition getDateTime :: "world \<Rightarrow> dates_t \<times> world" where
  "getDateTime w =
     (let (m1, w1) = moment w;
          (m2, w2) = moment w1;
          (m3, w3) = moment w2
      in (\<lparr>usbldate = format m1 usblPattern @ '' GMT'',
           shortdate = format m2 shortPattern,
           longdate = format m3 longPattern @ ''Z''\<rparr>, w3))"

text \<open>
  The three representations of one moment: what \<open>getDateTime\<close> returns when its three
  readings of the clock agree.
\<close>

definition datesOf :: "moment_t \<Rightarrow> dates_t" where
  "datesOf m = \<lparr>usbldate = format m usblPattern @ '' GMT'', shortdate = format m shortPattern,
                 longdate = format m longPattern @ ''Z''\<rparr>"

text \<open>
  The query object a caller passes: \<open>{id, params}\<close>, both optional. \<open>params\<close> is a plain
  object with string values, given as the list of its own enumerable properties in
  enumeration order.
\<close>

record query =
  id_q :: "string option"
  params :: "(string \<times> string) list option"

definition emptyQuery :: query where
  "emptyQuery = \<lparr>id_q = None, params = None\<rparr>"

text \<open>
  The keys that the \<open>for (var k in query.params)\<close> loop pushes. The loop calls
  \<open>query.params.hasOwnProperty(k)\<close>: when the object has an own property of that name, it
  is a string and the call throws a TypeError in the first iteration.
\<close>

definition ownKeys :: "(string \<times> string) list \<Rightarrow> error + string list" where
  "ownKeys ps =
     (if ''hasOwnProperty'' \<in> set (map fst ps) then Inl TypeError else Inr (map fst ps))"

definition appendParam :: "(string \<times> string) list \<Rightarrow> string \<Rightarrow> string \<Rightarrow> string" where
  "appendParam ps acc k = acc @ k @ ''='' @ toStr (map_of ps k) @ ''&''"

text \<open>
  \<open>handleQuery\<close> consists of two conditional statements: the first substitutes the id
  into \<open>this.url\<close>, the second builds \<open>this.queryParameters\<close>. The model returns the
  factory as the call leaves it, also when it throws. (The first statement also
  overwrites the caller's \<open>query.id\<close> with \<open>'%2A'\<close> when that was \<open>'*'\<close>; nothing reads the
  query object afterwards.)
\<close>

definition substituteId :: "query \<Rightarrow> signatureFactory \<Rightarrow> error + signatureFactory" where
  "substituteId q f =
     (if truthy (id_q q)
      then (let i = (if id_q q = Some ''*'' then ''%2A'' else toStr (id_q q))
            in case url f of
                 None \<Rightarrow> Inl TypeError
               | Some u \<Rightarrow> Inr (f\<lparr>url := Some (replace u '':id'' i)\<rparr>))
      else Inr f)"

definition buildQueryParameters :: "query \<Rightarrow> signatureFactory \<Rightarrow> (error + unit) \<times> signatureFactory" where
  "buildQueryParameters q f =
     (case params q of
        None \<Rightarrow> (Inr (), f)
      | Some ps \<Rightarrow>
          (case ownKeys ps of
             Inl e \<Rightarrow> (Inl e, f)
           | Inr ks \<Rightarrow>
               (Inr (),
                f\<lparr>queryParameters := Some (slice0m1 (foldl (appendParam ps) [] (sort ks)))\<rparr>)))"

definition handleQuery :: "query \<Rightarrow> signatureFactory \<Rightarrow> (error + unit) \<times> signatureFactory" where
  "handleQuery q f =
     (case substituteId q f of
        Inl e \<Rightarrow> (Inl e, f)
      | Inr f1 \<Rightarrow> buildQueryParameters q f1)"

record response =
  resp_headers :: headers_t
  resp_url :: "string option"

text \<open>
  \<open>sign\<close> assigns \<open>this.dates\<close> and \<open>this.headers\<close> before it calls \<open>authHeader\<close>, so an
  exception from there leaves both assigned.
\<close>

definition sign :: "crypto \<Rightarrow> world \<Rightarrow> signatureFactory \<Rightarrow> (error + response) \<times> signatureFactory \<times> world" where
  "sign c w f =
     (let (d, w1) = getDateTime w;
          f1 = f\<lparr>dates := Some d\<rparr>;
          f2 = f1\<lparr>headers := Some \<lparr>date = Some (usbldate d), Authorization = None\<rparr>\<rparr>
      in case authHeader c f2 of
           Inl e \<Rightarrow> (Inl e, f2, w1)
         | Inr a \<Rightarrow>
             (let hs = \<lparr>date = Some (usbldate d), Authorization = Some a\<rparr>;
                  f3 = f2\<lparr>headers := Some hs\<rparr>
              in (Inr \<lparr>resp_headers = hs,
                       resp_url = (if truthy (queryParameters f3)
                                   then Some (toStr (url f3) @ ''?'' @ toStr (queryParameters f3))
                                   else url f3)\<rparr>,
                  f3, w1)))"

section \<open>\<open>Resource\<close> and its subclasses\<close>

record config_t =
  protocol :: string
  config_host :: string

record resource =
  config :: config_t
  res_url :: string

definition Resource :: "string \<Rightarrow> resource" where
  "Resource u = \<lparr>config = \<lparr>protocol = ''https'', config_host = ''data.usabilla.com''\<rparr>,
                 res_url = u\<rparr>"

definition getBaseUrl :: "resource \<Rightarrow> string" where
  "getBaseUrl r = protocol (config r) @ ''://'' @ config_host (config r)"

text \<open>The options object handed to \<open>request\<close>: it names no method, so the call is a GET.\<close>

record requestOptions =
  opt_url :: string
  opt_headers :: headers_t

text \<open>
  \<open>Resource.get\<close> up to the call of \<open>request\<close>. Every resource holds the one
  \<open>SignatureFactory\<close> of its client, so the factory is threaded through the call.
\<close>

definition get :: "crypto \<Rightarrow> resource \<Rightarrow> query option \<Rightarrow> world \<Rightarrow> signatureFactory
    \<Rightarrow> (error + requestOptions) \<times> signatureFactory \<times> world" where
  "get c r qo w f =
     (let q = (case qo of None \<Rightarrow> emptyQuery | Some q' \<Rightarrow> q');
          f1 = setUrl (res_url r) f
      in case handleQuery q f1 of
           (Inl e, f2) \<Rightarrow> (Inl e, f2, w)
         | (Inr u, f2) \<Rightarrow>
             (case sign c w f2 of
                (Inl e, f3, w1) \<Rightarrow> (Inl e, f3, w1)
              | (Inr signature, f3, w1) \<Rightarrow>
                  (Inr \<lparr>opt_url = getBaseUrl r @ toStr (resp_url signature),
                        opt_headers = resp_headers signature\<rparr>, f3, w1)))"

definition CampaignsResultsResource :: "string \<Rightarrow> resource" where
  "CampaignsResultsResource base = Resource (base @ ''/:id/results'')"

definition CampaignsStatsResource :: "string \<Rightarrow> resource" where
  "CampaignsStatsResource base = Resource (base @ ''/:id/stats'')"

record campaignsResource =
  campaigns_self :: resource
  results :: resource
  stats :: resource

definition CampaignsResource :: "string \<Rightarrow> campaignsResource" where
  "CampaignsResource base =
     (let baseUrl = base @ ''/campaign''
      in \<lparr>campaigns_self = Resource baseUrl,
          results = CampaignsResultsResource baseUrl,
          stats = CampaignsStatsResource baseUrl\<rparr>)"

definition ButtonFeedbackResource :: "string \<Rightarrow> resource" where
  "ButtonFeedbackResource base = Resource (base @ ''/:id/feedback'')"

record buttonsResource =
  buttons_self :: resource
  feedback :: resource

definition ButtonsResource :: "string \<Rightarrow> buttonsResource" where
  "ButtonsResource base =
     (let baseUrl = base @ ''/button''
      in \<lparr>buttons_self = Resource baseUrl, feedback = ButtonFeedbackResource baseUrl\<rparr>)"

record websitesProduct =
  buttons :: buttonsResource
  campaigns :: campaignsResource

definition WebsitesProduct :: "string \<Rightarrow> websitesProduct" where
  "WebsitesProduct base =
     (let baseUrl = base @ ''/websites''
      in \<lparr>buttons = ButtonsResource baseUrl, campaigns = CampaignsResource baseUrl\<rparr>)"

section \<open>\<open>Usabilla\<close>\<close>

text \<open>
  The client: its own \<open>config\<close> object (a map from property names to values), the
  factory shared by all resources, and the resource tree.
\<close>

record usabilla =
  usabilla_config :: "string \<rightharpoonup> string"
  factory :: signatureFactory
  websites :: websitesProduct

definition Usabilla :: "string \<Rightarrow> string \<Rightarrow> usabilla" where
  "Usabilla ak sk =
     (let cfg = [''method'' \<mapsto> ''GET'', ''host'' \<mapsto> ''data.usabilla.com'', ''protocol'' \<mapsto> ''https''];
          signatureFactory = SignatureFactory ak sk (toStr (cfg ''host''))
      in \<lparr>usabilla_config = cfg, factory = signatureFactory,
          websites = WebsitesProduct ''/live''\<rparr>)"

text \<open>\<open>assign(this.config, options)\<close> copies the own properties of \<open>options\<close>, in order.\<close>

definition assign :: "(string \<rightharpoonup> string) \<Rightarrow> (string \<times> string) list \<Rightarrow> (string \<rightharpoonup> string)" where
  "assign target options = foldl (\<lambda>m (k, v). m(k \<mapsto> v)) target options"

definition configure :: "(string \<times> string) list \<Rightarrow> usabilla \<Rightarrow> usabilla" where
  "configure options u = u\<lparr>usabilla_config := assign (usabilla_config u) options\<rparr>"

text \<open>
  The five resources of a client, and the calls a program makes on it: \<open>configure\<close>, and
  \<open>get\<close> on one of the resources. \<open>run\<close> performs a sequence of calls and collects the
  options of the requests that were issued; a \<open>get\<close> that throws issues none.
\<close>

datatype route = Buttons | ButtonFeedback | Campaigns | CampaignResults | CampaignStats

fun resourceAt :: "websitesProduct \<Rightarrow> route \<Rightarrow> resource" where
  "resourceAt p Buttons = buttons_self (buttons p)"
| "resourceAt p ButtonFeedback = feedback (buttons p)"
| "resourceAt p Campaigns = campaigns_self (campaigns p)"
| "resourceAt p CampaignResults = results (campaigns p)"
| "resourceAt p CampaignStats = stats (campaigns p)"

datatype call = Configure "(string \<times> string) list" | Get route "query option"

fun perform :: "crypto \<Rightarrow> call \<Rightarrow> usabilla \<times> world
    \<Rightarrow> (error + requestOptions) option \<times> usabilla \<times> world" where
  "perform c (Configure options) (u, w) = (None, configure options u, w)"
| "perform c (Get rt qo) (u, w) =
     (case get c (resourceAt (websites u) rt) qo w (factory u) of
        (res, f', w') \<Rightarrow> (Some res, u\<lparr>factory := f'\<rparr>, w'))"

fun run :: "crypto \<Rightarrow> call list \<Rightarrow> usabilla \<times> world \<Rightarrow> requestOptions list \<times> usabilla \<times> world" where
  "run c [] (u, w) = ([], u, w)"
| "run c (x # xs) (u, w) =
     (case perform c x (u, w) of
        (res, u', w') \<Rightarrow>
          (case run c xs (u', w') of
             (reqs, u'', w'') \<Rightarrow>
               ((case res of Some (Inr opts) \<Rightarrow> [opts] | _ \<Rightarrow> []) @ reqs, u'', w'')))"

section \<open>Example environments\<close>

text \<open>
  A crypto provider whose primitives always succeed. Its digests are short stand-ins, not
  SHA-256; it serves where an example needs some provider that does not throw.
\<close>

definition exampleCrypto :: crypto where
  "exampleCrypto = \<lparr>sha256 = (\<lambda>s. Inr (CHR ''#'' # take 1 s)),
                    hmacSha256 = (\<lambda>k s. Inr (take 1 k @ take 1 s))\<rparr>"

text \<open>A provider without the digest: every primitive throws.\<close>

definition failingCrypto :: crypto where
  "failingCrypto = \<lparr>sha256 = (\<lambda>s. Inl CryptoError), hmacSha256 = (\<lambda>k s. Inl CryptoError)\<rparr>"

text \<open>
  A host in UTC and a host one hour east of it, both with the clock standing at
  2017-01-02T15:04:05Z; and a host in UTC whose clock passes midnight between the first
  and the second reading (23:59:59.999 on 2017-01-02, then 00:00:00.000 on 2017-01-03).
\<close>

definition utcWorld :: world where
  "utcWorld = \<lparr>clock = (\<lambda>n. 1483369445000), reads = 0, utcOffset = (\<lambda>t. 0)\<rparr>"

definition eastWorld :: world where
  "eastWorld = \<lparr>clock = (\<lambda>n. 1483369445000), reads = 0, utcOffset = (\<lambda>t. 60)\<rparr>"

definition midnightWorld :: world where
  "midnightWorld = \<lparr>clock = (\<lambda>n. if n = 0 then 1483401599999 else 1483401600000),
                     reads = 0, utcOffset = (\<lambda>t. 0)\<rparr>"

text \<open>The state the factory of a new client is in once \<open>Resource.get\<close> has set the path.\<close>

definition exampleFactory :: signatureFactory where
  "exampleFactory = setUrl ''/live/websites/button'' (SignatureFactory ''AK'' ''SK'' ''data.usabilla.com'')"

definition exampleDates :: dates_t where
  "exampleDates = \<lparr>usbldate = ''Mon, 02 Jan 2017 15:04:05 GMT'', shortdate = ''20170102'',
                    longdate = ''20170102T150405Z''\<rparr>"

section \<open>Evaluation lemmas\<close>

lemma hex_example: "hex ''#'' = ''23''" "hex ''#G'' = ''2347''" "hex ''UU'' = ''5555''"
  by (simp_all add: hex_def hexDigit_def)

text \<open>\<open>hex\<close> gives two lowercase hexadecimal digits for each byte.\<close>

lemma hexDigit_lowercase: "n < 16 \<Longrightarrow> hexDigit n \<in> set ''0123456789abcdef''"
  unfolding hexDigit_def by (rule nth_mem) simp

lemma of_char_bound: "(of_char b :: nat) < 256"
proof -
  have "(of_char b :: nat) mod 256 < 256" by simp
  then show ?thesis by simp
qed

lemma hex_lowercase: "set (hex bs) \<subseteq> set ''0123456789abcdef''"
proof -
  have "hexDigit (of_char b div 16) \<in> set ''0123456789abcdef''
      \<and> hexDigit (of_char b mod 16) \<in> set ''0123456789abcdef''" for b
    using of_char_bound [of b]
    by (intro conjI hexDigit_lowercase) (simp_all add: div_less_iff_less_mult)
  then show ?thesis
    unfolding hex_def by (induction bs) simp_all
qed

lemma hex_length: "length (hex bs) = 2 * length bs"
  by (induction bs) (simp_all add: hex_def)

lemmas example_defs = exampleFactory_def exampleDates_def exampleCrypto_def SignatureFactory_def
  setUrl_def

lemma civil_17168: "civilFromDays 17168 = (2017, 1, 2)"
  unfolding civilFromDays_def Let_def by simp

lemma civil_17169: "civilFromDays 17169 = (2017, 1, 3)"
  unfolding civilFromDays_def Let_def by simp

lemmas field_defs = year_def month_def dayOfMonth_def weekday_def hours_def minutes_def
  seconds_def secondOfDay_def dayNumber_def localMillis_def

lemmas format_defs = format_def usblPattern_def shortPattern_def longPattern_def field_defs
  zeroFill_def decimal.simps digit_def weekdaysShort_def monthsShort_def

lemma format_utc:
  "format \<lparr>instant = 1483369445000, offsetMinutes = 0\<rparr> usblPattern = ''Mon, 02 Jan 2017 15:04:05''"
  "format \<lparr>instant = 1483369445000, offsetMinutes = 0\<rparr> shortPattern = ''20170102''"
  "format \<lparr>instant = 1483369445000, offsetMinutes = 0\<rparr> longPattern = ''20170102T150405''"
  by (simp_all add: format_defs civil_17168)

lemma format_east:
  "format \<lparr>instant = 1483369445000, offsetMinutes = 60\<rparr> usblPattern = ''Mon, 02 Jan 2017 16:04:05''"
  "format \<lparr>instant = 1483369445000, offsetMinutes = 60\<rparr> shortPattern = ''20170102''"
  "format \<lparr>instant = 1483369445000, offsetMinutes = 60\<rparr> longPattern = ''20170102T160405''"
  by (simp_all add: format_defs civil_17168)

lemma format_midnight:
  "format \<lparr>instant = 1483401599999, offsetMinutes = 0\<rparr> usblPattern = ''Mon, 02 Jan 2017 23:59:59''"
  "format \<lparr>instant = 1483401600000, offsetMinutes = 0\<rparr> shortPattern = ''20170103''"
  "format \<lparr>instant = 1483401600000, offsetMinutes = 0\<rparr> longPattern = ''20170103T000000''"
  by (simp_all add: format_defs civil_17168 civil_17169)

section \<open>Reading the clock\<close>

text \<open>\<open>getDateTime\<close> reads the clock three times and formats each reading once.\<close>

lemma getDateTime_reads:
  "getDateTime w =
     (\<lparr>usbldate = format \<lparr>instant = clock w (reads w),
                           offsetMinutes = utcOffset w (clock w (reads w))\<rparr> usblPattern @ '' GMT'',
       shortdate = format \<lparr>instant = clock w (Suc (reads w)),
                            offsetMinutes = utcOffset w (clock w (Suc (reads w)))\<rparr> shortPattern,
       longdate = format \<lparr>instant = clock w (Suc (Suc (reads w))),
                           offsetMinutes = utcOffset w (clock w (Suc (Suc (reads w))))\<rparr> longPattern @ ''Z''\<rparr>,
      w\<lparr>reads := reads w + 3\<rparr>)"
  by (simp add: getDateTime_def moment_def Let_def)

text \<open>When the three readings agree, the result is the three representations of that instant.\<close>

lemma getDateTime_single_instant:
  assumes "clock w (Suc (reads w)) = clock w (reads w)"
    and "clock w (Suc (Suc (reads w))) = clock w (reads w)"
  shows "fst (getDateTime w) =
           datesOf \<lparr>instant = clock w (reads w), offsetMinutes = utcOffset w (clock w (reads w))\<rparr>"
  by (simp add: getDateTime_reads datesOf_def assms)

lemma getDateTime_utc:
  assumes "clock w = (\<lambda>n. 1483369445000)" and "utcOffset w = (\<lambda>t. 0)"
  shows "getDateTime w = (exampleDates, w\<lparr>reads := reads w + 3\<rparr>)"
  by (simp add: getDateTime_reads assms format_utc exampleDates_def)

lemma getDateTime_east:
  assumes "clock w = (\<lambda>n. 1483369445000)" and "utcOffset w = (\<lambda>t. 60)"
  shows "getDateTime w =
    (\<lparr>usbldate = ''Mon, 02 Jan 2017 16:04:05 GMT'', shortdate = ''20170102'',
      longdate = ''20170102T160405Z''\<rparr>, w\<lparr>reads := reads w + 3\<rparr>)"
  by (simp add: getDateTime_reads assms format_east)

text \<open>What \<open>zeroFill\<close> and the weekday names consist of.\<close>

lemma digit_decimal: "n < 10 \<Longrightarrow> digit n \<in> set ''0123456789''"
  unfolding digit_def by (rule nth_mem) simp

lemma decimal_digits: "set (decimal n) \<subseteq> set ''0123456789''"
proof (induction n rule: decimal.induct)
  case (1 n)
  show ?case
  proof (cases "n < 10")
    case True
    then have "decimal n = [digit n]" by (subst decimal.simps) simp
    with digit_decimal [OF True] show ?thesis by simp
  next
    case False
    then have "decimal n = decimal (n div 10) @ [digit (n mod 10)]"
      by (subst decimal.simps) simp
    moreover have "digit (n mod 10) \<in> set ''0123456789''"
      by (rule digit_decimal) simp
    ultimately show ?thesis using "1.IH" [OF False] by simp
  qed
qed

lemma zeroFill_no_blank: "CHR '' '' \<notin> set (zeroFill n width)"
  using decimal_digits [of "nat \<bar>n\<bar>"] by (auto simp add: zeroFill_def Let_def)

lemma weekdaysShort_length: "n < 7 \<Longrightarrow> length (weekdaysShort ! n) = 3"
proof -
  assume "n < 7"
  then have "n \<in> {0, 1, 2, 3, 4, 5, 6}" by auto
  then show ?thesis by (auto simp add: weekdaysShort_def)
qed

lemma weekday_name_length: "length (weekdaysShort ! nat (weekday m)) = 3"
  by (rule weekdaysShort_length) (simp add: weekday_def nat_less_iff)

text \<open>
  No moment has the header date of 2 January together with the short date of 3 January:
  the day of the month is printed by the same \<open>zeroFill\<close> in both.
\<close>

lemma no_moment_for_mixed_dates:
  "\<not> (\<exists>m. datesOf m = \<lparr>usbldate = ''Mon, 02 Jan 2017 23:59:59 GMT'', shortdate = ''20170103'',
                         longdate = ''20170103T000000Z''\<rparr>)"
proof
  assume "\<exists>m. datesOf m = \<lparr>usbldate = ''Mon, 02 Jan 2017 23:59:59 GMT'', shortdate = ''20170103'',
                         longdate = ''20170103T000000Z''\<rparr>"
  then obtain m where
    u: "format m usblPattern @ '' GMT'' = ''Mon, 02 Jan 2017 23:59:59 GMT''" and
    s: "format m shortPattern = ''20170103''"
    by (auto simp add: datesOf_def)
  define W where "W = weekdaysShort ! nat (weekday m)"
  define D where "D = zeroFill (dayOfMonth m) 2"
  define R where "R = '' '' @ monthsShort ! nat (month m - 1) @ '' '' @ zeroFill (year m) 4 @ '' '' @
    zeroFill (hours m) 2 @ '':'' @ zeroFill (minutes m) 2 @ '':'' @ zeroFill (seconds m) 2 @ '' GMT''"
  define X where "X = zeroFill (year m) 4 @ zeroFill (month m) 2"
  have lw: "length W = 3"
    unfolding W_def by (rule weekday_name_length)
  have nb: "CHR '' '' \<notin> set D"
    unfolding D_def by (rule zeroFill_no_blank)
  from u have "W @ '', '' @ D @ R = ''Mon, 02 Jan 2017 23:59:59 GMT''"
    by (simp add: format_def usblPattern_def W_def D_def R_def)
  then have "drop 5 (W @ '', '' @ D @ R) = drop 5 ''Mon, 02 Jan 2017 23:59:59 GMT''"
    by simp
  with lw have "D @ R = ''02 Jan 2017 23:59:59 GMT''"
    by simp
  then have "takeWhile (\<lambda>c. c \<noteq> CHR '' '') (D @ R) =
             takeWhile (\<lambda>c. c \<noteq> CHR '' '') ''02 Jan 2017 23:59:59 GMT''"
    by simp
  moreover have "takeWhile (\<lambda>c. c \<noteq> CHR '' '') (D @ R) =
                 D @ takeWhile (\<lambda>c. c \<noteq> CHR '' '') R"
    by (rule takeWhile_append2) (use nb in auto)
  moreover have "takeWhile (\<lambda>c. c \<noteq> CHR '' '') R = []"
    by (simp add: R_def)
  ultimately have d: "D = ''02''"
    by simp
  from s have "X @ D = ''20170103''"
    by (simp add: format_def shortPattern_def X_def D_def)
  with d have "last (X @ ''02'') = last ''20170103''"
    by simp
  then show False by simp
qed

text \<open>
  C1. The three representations are not formattings of one instant: \<open>getDateTime\<close> calls
  \<open>moment()\<close> once for each. On a host whose clock shows 23:59:59.999 of 2 January 2017 at the
  first reading and midnight at the second and third, the header date is of 2 January and
  the short and long dates are of 3 January, a combination that no single moment has.
\<close>

theorem getDateTime_three_instants:
  "clock midnightWorld 0 = 1483401599999 \<and> clock midnightWorld 1 = 1483401600000
   \<and> clock midnightWorld 2 = 1483401600000
   \<and> fst (getDateTime midnightWorld) =
       \<lparr>usbldate = ''Mon, 02 Jan 2017 23:59:59 GMT'', shortdate = ''20170103'',
        longdate = ''20170103T000000Z''\<rparr>
   \<and> \<not> (\<exists>m. datesOf m = fst (getDateTime midnightWorld))"
proof -
  have "fst (getDateTime midnightWorld) =
       \<lparr>usbldate = ''Mon, 02 Jan 2017 23:59:59 GMT'', shortdate = ''20170103'',
        longdate = ''20170103T000000Z''\<rparr>"
    by (simp add: getDateTime_reads midnightWorld_def format_midnight)
  with no_moment_for_mixed_dates show ?thesis
    by (simp add: midnightWorld_def)
qed

section \<open>The canonical string\<close>

lemma canonicalString_cases:
  "canonicalString c f =
     (case sha256 c [] of
        Inl e \<Rightarrow> Inl e
      | Inr raw \<Rightarrow>
          (case dates f of
             None \<Rightarrow> Inl TypeError
           | Some d \<Rightarrow>
               Inr ((if truthy (method_f f) then toStr (method_f f) else ''GET'') @ ''\<newline>'' @
                    elem (url f) @ ''\<newline>'' @ elem (queryParameters f) @ ''\<newline>'' @
                    ''date:'' @ usbldate d @ ''\<newline>'' @ ''host:'' @ host f @ ''\<newline>\<newline>'' @
                    ''date;host'' @ ''\<newline>'' @ hex raw)))"
  by (simp add: canonicalString_def hash_def digest_def getCanonicalHeaders_def
      split: sum.splits option.splits)

text \<open>
  C4. With the dates set and the hash of the empty payload available, the canonical
  string is the newline-join of: the method (\<open>GET\<close> when \<open>this.method\<close> is unset or empty),
  the path, the query string, \<open>date:\<close> and the header date, \<open>host:\<close> and the host followed
  by a newline of its own, the text \<open>date;host\<close>, and the hexadecimal SHA-256 of the empty
  string. Written out, the host line is followed by two newlines.
\<close>

theorem canonicalString_layout:
  assumes "sha256 c [] = Inr raw" and "dates f = Some d"
  shows "canonicalString c f =
           Inr (join ''\<newline>''
                  [if truthy (method_f f) then toStr (method_f f) else ''GET'',
                   elem (url f),
                   elem (queryParameters f),
                   ''date:'' @ usbldate d,
                   ''host:'' @ host f @ ''\<newline>'',
                   ''date;host'',
                   hex raw])
         \<and> canonicalString c f =
           Inr ((if truthy (method_f f) then toStr (method_f f) else ''GET'') @ ''\<newline>'' @
                elem (url f) @ ''\<newline>'' @
                elem (queryParameters f) @ ''\<newline>'' @
                ''date:'' @ usbldate d @ ''\<newline>'' @
                ''host:'' @ host f @ ''\<newline>\<newline>'' @
                ''date;host'' @ ''\<newline>'' @
                hex raw)"
  using assms by (simp add: canonicalString_def hash_def digest_def getCanonicalHeaders_def)

text \<open>The canonical string of a request for \<open>/live/websites/button?limit=5\<close>.\<close>

theorem canonicalString_layout_witness:
  "canonicalString exampleCrypto
     (exampleFactory\<lparr>queryParameters := Some ''limit=5'', dates := Some exampleDates\<rparr>) =
   Inr ''GET\<newline>/live/websites/button\<newline>limit=5\<newline>date:Mon, 02 Jan 2017 15:04:05 GMT\<newline>host:data.usabilla.com\<newline>\<newline>date;host\<newline>23''"
  using canonicalString_layout [of exampleCrypto "''#''"
      "exampleFactory\<lparr>queryParameters := Some ''limit=5'', dates := Some exampleDates\<rparr>"
      exampleDates]
  by (simp add: example_defs truthy_def elem_def hex_example)

text \<open>The headers object is not read by the signing functions.\<close>

lemma canonicalString_headers: "canonicalString c (f\<lparr>headers := hs\<rparr>) = canonicalString c f"
  by (simp add: canonicalString_def getCanonicalHeaders_def split: sum.splits option.splits)

lemma stringToSign_headers: "stringToSign c (f\<lparr>headers := hs\<rparr>) = stringToSign c f"
  by (simp add: stringToSign_def canonicalString_headers split: sum.splits option.splits)

lemma getSignature_headers: "getSignature c (f\<lparr>headers := hs\<rparr>) = getSignature c f"
  by (simp add: getSignature_def stringToSign_headers split: sum.splits option.splits)

section \<open>The signature\<close>

text \<open>
  C3. When the primitives give their digests, the string to sign is the newline-join of
  \<open>USBL1-HMAC-SHA256\<close>, the long date, the short date followed by \<open>/usbl1_request\<close>, and the
  hexadecimal SHA-256 of the canonical string; and the signature is the hexadecimal
  HMAC-SHA256 of it under \<open>kSigning\<close>, where \<open>kSigning\<close> is the raw HMAC of \<open>usbl1_request\<close>
  under \<open>kDate\<close> and \<open>kDate\<close> the raw HMAC of the short date under \<open>USBL1\<close> followed by the
  secret key.
\<close>

theorem getSignature_derivation:
  assumes "dates f = Some d"
    and "canonicalString c f = Inr canonical"
    and "sha256 c canonical = Inr h"
    and "hmacSha256 c (''USBL1'' @ secretKey f) (shortdate d) = Inr kDate"
    and "hmacSha256 c kDate ''usbl1_request'' = Inr kSigning"
    and "hmacSha256 c kSigning
           (join ''\<newline>'' [''USBL1-HMAC-SHA256'', longdate d, shortdate d @ ''/usbl1_request'', hex h])
         = Inr sg"
  shows "stringToSign c f =
           Inr (join ''\<newline>'' [''USBL1-HMAC-SHA256'', longdate d, shortdate d @ ''/usbl1_request'', hex h])
         \<and> getSignature c f = Inr (hex sg)"
  using assms by (simp add: getSignature_def stringToSign_def hmac_def hash_def digest_def)

theorem getSignature_derivation_witness:
  "getSignature exampleCrypto (exampleFactory\<lparr>dates := Some exampleDates\<rparr>) = Inr ''5555''"
proof -
  let ?f = "exampleFactory\<lparr>dates := Some exampleDates\<rparr>"
  have d: "dates ?f = Some exampleDates" by simp
  have cs: "canonicalString exampleCrypto ?f =
      Inr ''GET\<newline>/live/websites/button\<newline>\<newline>date:Mon, 02 Jan 2017 15:04:05 GMT\<newline>host:data.usabilla.com\<newline>\<newline>date;host\<newline>23''"
    by (simp add: canonicalString_def hash_def digest_def getCanonicalHeaders_def example_defs
        truthy_def elem_def hex_example)
  have h: "sha256 exampleCrypto
      ''GET\<newline>/live/websites/button\<newline>\<newline>date:Mon, 02 Jan 2017 15:04:05 GMT\<newline>host:data.usabilla.com\<newline>\<newline>date;host\<newline>23'' = Inr ''#G''"
    by (simp add: exampleCrypto_def)
  have k1: "hmacSha256 exampleCrypto (''USBL1'' @ secretKey ?f) (shortdate exampleDates) = Inr ''U2''"
    by (simp add: example_defs)
  have k2: "hmacSha256 exampleCrypto ''U2'' ''usbl1_request'' = Inr ''Uu''"
    by (simp add: example_defs)
  have k3: "hmacSha256 exampleCrypto ''Uu''
      (join ''\<newline>'' [''USBL1-HMAC-SHA256'', longdate exampleDates,
         shortdate exampleDates @ ''/usbl1_request'', hex ''#G'']) = Inr ''UU''"
    by (simp add: example_defs)
  from getSignature_derivation [OF d cs h k1 k2 k3] show ?thesis
    by (simp add: hex_example)
qed

lemma example_signature:
  "dates f = Some exampleDates \<Longrightarrow> getSignature exampleCrypto f = Inr ''5555''"
  by (simp add: getSignature_def stringToSign_def canonicalString_def getCanonicalHeaders_def
      hmac_def hash_def digest_def exampleCrypto_def exampleDates_def hex_example)

text \<open>With primitives that do not throw, a factory that has its dates gets a signature.\<close>

lemma getSignature_succeeds:
  assumes "\<forall>s. \<exists>h. sha256 c s = Inr h" and "\<forall>k s. \<exists>m. hmacSha256 c k s = Inr m"
    and "dates f = Some d"
  shows "\<exists>sg. getSignature c f = Inr sg"
proof -
  from assms(1) obtain raw where r: "sha256 c [] = Inr raw" by blast
  with assms(3) obtain cs where cs: "canonicalString c f = Inr cs"
    by (simp add: canonicalString_cases)
  from assms(1) obtain h where h: "sha256 c cs = Inr h" by blast
  from assms(2) obtain kDate where k1: "hmacSha256 c (''USBL1'' @ secretKey f) (shortdate d) = Inr kDate"
    by blast
  from assms(2) obtain kSigning where k2: "hmacSha256 c kDate ''usbl1_request'' = Inr kSigning"
    by blast
  from assms(2) obtain sg where "hmacSha256 c kSigning
      (join ''\<newline>'' [''USBL1-HMAC-SHA256'', longdate d, shortdate d @ ''/usbl1_request'', hex h]) = Inr sg"
    by blast
  with assms(3) cs h k1 k2 have "getSignature c f = Inr (hex sg)"
    by (simp add: getSignature_def stringToSign_def hmac_def hash_def digest_def)
  then show ?thesis ..
qed

section \<open>\<open>sign\<close>\<close>

text \<open>\<open>sign\<close> in one piece: it fails exactly when \<open>getSignature\<close> fails on the new dates.\<close>

lemma sign_unfold:
  "sign c w f =
     (let d = fst (getDateTime w); w1 = snd (getDateTime w);
          f2 = f\<lparr>dates := Some d,
                 headers := Some \<lparr>date = Some (usbldate d), Authorization = None\<rparr>\<rparr>
      in case getSignature c (f\<lparr>dates := Some d\<rparr>) of
           Inl e \<Rightarrow> (Inl e, f2, w1)
         | Inr sg \<Rightarrow>
             (let a = ''USBL1-HMAC-SHA256 Credential='' @ accessKey f @ ''/'' @ shortdate d @
                      ''/usbl1_request, SignedHeaders=date;host, Signature='' @ sg;
                  hs = \<lparr>date = Some (usbldate d), Authorization = Some a\<rparr>
              in (Inr \<lparr>resp_headers = hs,
                       resp_url = (if truthy (queryParameters f)
                                   then Some (toStr (url f) @ ''?'' @ toStr (queryParameters f))
                                   else url f)\<rparr>,
                  f\<lparr>dates := Some d, headers := Some hs\<rparr>, w1)))"
  by (simp add: sign_def authHeader_def getSignature_headers Let_def split: prod.splits sum.splits)

lemma sign_dates: "dates (fst (snd (sign c w f))) = Some (fst (getDateTime w))"
  by (simp add: sign_unfold Let_def split: sum.splits)

lemma sign_frame:
  "accessKey (fst (snd (sign c w f))) = accessKey f"
  "secretKey (fst (snd (sign c w f))) = secretKey f"
  "host (fst (snd (sign c w f))) = host f"
  "url (fst (snd (sign c w f))) = url f"
  "method_f (fst (snd (sign c w f))) = method_f f"
  "queryParameters (fst (snd (sign c w f))) = queryParameters f"
  by (simp_all add: sign_unfold Let_def split: sum.splits)

text \<open>With primitives that do not throw, \<open>sign\<close> returns a result.\<close>

lemma sign_succeeds:
  assumes "\<forall>s. \<exists>h. sha256 c s = Inr h" and "\<forall>k s. \<exists>m. hmacSha256 c k s = Inr m"
  shows "\<exists>r. fst (sign c w f) = Inr r"
proof -
  from getSignature_succeeds [OF assms, of "f\<lparr>dates := Some (fst (getDateTime w))\<rparr>"]
  obtain sg where "getSignature c (f\<lparr>dates := Some (fst (getDateTime w))\<rparr>) = Inr sg"
    by auto
  then show ?thesis
    by (simp add: sign_unfold Let_def)
qed

text \<open>
  The value that \<open>sign\<close> returns, read off the state of the factory: the header date
  under \<open>date\<close>; under \<open>Authorization\<close> the text \<open>USBL1-HMAC-SHA256 Credential=\<close>, the
  access key, a slash, the short date, \<open>/usbl1_request, SignedHeaders=date;host, Signature=\<close>
  and the signature; and as \<open>url\<close> the path, followed by \<open>?\<close> and the query string that the
  factory holds when that is not empty, whichever call built it.
\<close>

lemma sign_response:
  assumes "getDateTime w = (d, w')"
    and "getSignature c (f\<lparr>dates := Some d\<rparr>) = Inr sg"
    and "url f = Some path"
  shows "fst (sign c w f) =
           Inr \<lparr>resp_headers =
                  \<lparr>date = Some (usbldate d),
                   Authorization =
                     Some (''USBL1-HMAC-SHA256 Credential='' @ accessKey f @ ''/'' @ shortdate d @
                           ''/usbl1_request, SignedHeaders=date;host, Signature='' @ sg)\<rparr>,
                resp_url =
                  Some (if truthy (queryParameters f)
                        then path @ ''?'' @ toStr (queryParameters f) else path)\<rparr>"
  using assms by (simp add: sign_unfold toStr_def Let_def)

lemma sign_response_example:
  "fst (sign exampleCrypto utcWorld (exampleFactory\<lparr>queryParameters := Some ''limit=5''\<rparr>)) =
     Inr \<lparr>resp_headers =
            \<lparr>date = Some ''Mon, 02 Jan 2017 15:04:05 GMT'',
             Authorization = Some ''USBL1-HMAC-SHA256 Credential=AK/20170102/usbl1_request, SignedHeaders=date;host, Signature=5555''\<rparr>,
          resp_url = Some ''/live/websites/button?limit=5''\<rparr>"
proof -
  let ?f = "exampleFactory\<lparr>queryParameters := Some ''limit=5''\<rparr>"
  have d: "getDateTime utcWorld = (exampleDates, utcWorld\<lparr>reads := reads utcWorld + 3\<rparr>)"
    by (rule getDateTime_utc) (simp_all add: utcWorld_def)
  have s: "getSignature exampleCrypto (?f\<lparr>dates := Some exampleDates\<rparr>) = Inr ''5555''"
    by (rule example_signature) simp
  have u: "url ?f = Some ''/live/websites/button''"
    by (simp add: example_defs)
  from sign_response [OF d s u] show ?thesis
    by (simp add: example_defs truthy_def toStr_def)
qed

text \<open>
  C9, as the code has it. If one of the primitive calls of a signing fails, \<open>sign\<close> throws
  the error of a primitive and returns no result; the factory then holds the new dates and
  a headers object with the date and no \<open>Authorization\<close>, and is otherwise as before the
  call.
\<close>

theorem sign_failure:
  assumes "\<not> (\<exists>kDate kSigning raw canonical h sg.
              hmacSha256 c (''USBL1'' @ secretKey f) (shortdate (fst (getDateTime w))) = Inr kDate
            \<and> hmacSha256 c kDate ''usbl1_request'' = Inr kSigning
            \<and> sha256 c [] = Inr raw
            \<and> canonicalString c (f\<lparr>dates := Some (fst (getDateTime w))\<rparr>) = Inr canonical
            \<and> sha256 c canonical = Inr h
            \<and> hmacSha256 c kSigning
                  (join ''\<newline>'' [''USBL1-HMAC-SHA256'', longdate (fst (getDateTime w)),
                     shortdate (fst (getDateTime w)) @ ''/usbl1_request'', hex h]) = Inr sg)"
  shows "\<exists>e. fst (sign c w f) = Inl e
           \<and> ((\<exists>s. sha256 c s = Inl e) \<or> (\<exists>k s. hmacSha256 c k s = Inl e))
           \<and> fst (snd (sign c w f)) =
               f\<lparr>dates := Some (fst (getDateTime w)),
                 headers := Some \<lparr>date = Some (usbldate (fst (getDateTime w))),
                                  Authorization = None\<rparr>\<rparr>"
proof -
  let ?d = "fst (getDateTime w)"
  let ?f = "f\<lparr>dates := Some ?d\<rparr>"
  show ?thesis
  proof (cases "getSignature c ?f")
    case (Inl e)
    then have "(\<exists>s. sha256 c s = Inl e) \<or> (\<exists>k s. hmacSha256 c k s = Inl e)"
      by (auto simp add: getSignature_def stringToSign_def canonicalString_def
          getCanonicalHeaders_def hmac_def hash_def split: sum.splits)
    with Inl show ?thesis
      by (simp add: sign_unfold Let_def)
  next
    case (Inr sg)
    then have False using assms
      by (auto simp add: getSignature_def stringToSign_def canonicalString_def
          getCanonicalHeaders_def hmac_def hash_def digest_def split: sum.splits)
    then show ?thesis ..
  qed
qed

theorem sign_failure_witness:
  "fst (sign failingCrypto utcWorld exampleFactory) = Inl CryptoError
   \<and> fst (snd (sign failingCrypto utcWorld exampleFactory)) =
       exampleFactory\<lparr>dates := Some exampleDates,
         headers := Some \<lparr>date = Some ''Mon, 02 Jan 2017 15:04:05 GMT'', Authorization = None\<rparr>\<rparr>"
proof -
  have d: "getDateTime utcWorld = (exampleDates, utcWorld\<lparr>reads := reads utcWorld + 3\<rparr>)"
    by (rule getDateTime_utc) (simp_all add: utcWorld_def)
  have "\<not> (\<exists>kDate. hmacSha256 failingCrypto (''USBL1'' @ secretKey exampleFactory)
                (shortdate (fst (getDateTime utcWorld))) = Inr kDate)"
    by (simp add: failingCrypto_def)
  then have "\<exists>e. fst (sign failingCrypto utcWorld exampleFactory) = Inl e
           \<and> ((\<exists>s. sha256 failingCrypto s = Inl e) \<or> (\<exists>k s. hmacSha256 failingCrypto k s = Inl e))
           \<and> fst (snd (sign failingCrypto utcWorld exampleFactory)) =
               exampleFactory\<lparr>dates := Some (fst (getDateTime utcWorld)),
                 headers := Some \<lparr>date = Some (usbldate (fst (getDateTime utcWorld))),
                                  Authorization = None\<rparr>\<rparr>"
    by (intro sign_failure) blast
  then show ?thesis
    by (auto simp add: d failingCrypto_def exampleDates_def)
qed

text \<open>
  C9 as stated fails: with a provider that lacks the digest, \<open>sign\<close> throws, and the
  factory, which held no dates before the call, holds dates after it.
\<close>

theorem sign_state_counterexample:
  "fst (sign failingCrypto utcWorld exampleFactory) = Inl CryptoError
   \<and> dates exampleFactory = None
   \<and> dates (fst (snd (sign failingCrypto utcWorld exampleFactory))) = Some exampleDates
   \<and> fst (snd (sign failingCrypto utcWorld exampleFactory)) \<noteq> exampleFactory"
proof -
  have d: "getDateTime utcWorld = (exampleDates, utcWorld\<lparr>reads := reads utcWorld + 3\<rparr>)"
    by (rule getDateTime_utc) (simp_all add: utcWorld_def)
  have g: "getSignature failingCrypto (exampleFactory\<lparr>dates := Some exampleDates\<rparr>) = Inl CryptoError"
    by (simp add: getSignature_def hmac_def failingCrypto_def)
  have s: "sign failingCrypto utcWorld exampleFactory =
      (Inl CryptoError,
       exampleFactory\<lparr>dates := Some exampleDates,
         headers := Some \<lparr>date = Some (usbldate exampleDates), Authorization = None\<rparr>\<rparr>,
       utcWorld\<lparr>reads := reads utcWorld + 3\<rparr>)"
    by (simp add: sign_unfold d g)
  have n: "dates exampleFactory = None"
    by (simp add: example_defs)
  have "exampleFactory\<lparr>dates := Some exampleDates,
         headers := Some \<lparr>date = Some (usbldate exampleDates), Authorization = None\<rparr>\<rparr> \<noteq> exampleFactory"
  proof
    assume "exampleFactory\<lparr>dates := Some exampleDates,
         headers := Some \<lparr>date = Some (usbldate exampleDates), Authorization = None\<rparr>\<rparr> = exampleFactory"
    then have "dates (exampleFactory\<lparr>dates := Some exampleDates,
         headers := Some \<lparr>date = Some (usbldate exampleDates), Authorization = None\<rparr>\<rparr>) = dates exampleFactory"
      by simp
    with n show False by simp
  qed
  with s n show ?thesis by simp
qed

text \<open>
  C5. The outputs depend on the zone of the host. Two hosts read the same instant,
  2017-01-02T15:04:05Z, one in UTC and one an hour east of it; the canonical string that the
  first signs carries the date line \<open>15:04:05 GMT\<close>, the one that the second signs
  \<open>16:04:05 GMT\<close>.
\<close>

theorem sign_depends_on_zone:
  "clock utcWorld = clock eastWorld
   \<and> canonicalString c (fst (snd (sign c utcWorld exampleFactory))) =
       (case sha256 c [] of
          Inl e \<Rightarrow> Inl e
        | Inr raw \<Rightarrow>
            Inr (''GET\<newline>/live/websites/button\<newline>\<newline>date:Mon, 02 Jan 2017 15:04:05 GMT\<newline>host:data.usabilla.com\<newline>\<newline>date;host\<newline>'' @ hex raw))
   \<and> canonicalString c (fst (snd (sign c eastWorld exampleFactory))) =
       (case sha256 c [] of
          Inl e \<Rightarrow> Inl e
        | Inr raw \<Rightarrow>
            Inr (''GET\<newline>/live/websites/button\<newline>\<newline>date:Mon, 02 Jan 2017 16:04:05 GMT\<newline>host:data.usabilla.com\<newline>\<newline>date;host\<newline>'' @ hex raw))"
proof -
  have u: "getDateTime utcWorld = (exampleDates, utcWorld\<lparr>reads := reads utcWorld + 3\<rparr>)"
    by (rule getDateTime_utc) (simp_all add: utcWorld_def)
  have e: "fst (getDateTime eastWorld) = \<lparr>usbldate = ''Mon, 02 Jan 2017 16:04:05 GMT'',
      shortdate = ''20170102'', longdate = ''20170102T160405Z''\<rparr>"
    by (subst getDateTime_east) (simp_all add: eastWorld_def)
  have f: "method_f exampleFactory = None" "url exampleFactory = Some ''/live/websites/button''"
    "queryParameters exampleFactory = None" "host exampleFactory = ''data.usabilla.com''"
    by (simp_all add: example_defs)
  have "clock utcWorld = clock eastWorld"
    by (simp add: utcWorld_def eastWorld_def)
  then show ?thesis
    by (simp add: canonicalString_cases sign_dates sign_frame u e f truthy_def elem_def
        exampleDates_def split: sum.splits)
qed

section \<open>\<open>handleQuery\<close>\<close>

lemmas handleQuery_defs = handleQuery_def substituteId_def buildQueryParameters_def

subsection \<open>The query string\<close>

lemma foldl_appendParam:
  "foldl (appendParam ps) acc ks =
     acc @ concat (map (\<lambda>k. (k @ ''='' @ toStr (map_of ps k)) @ ''&'') ks)"
  by (induction ks arbitrary: acc) (simp_all add: appendParam_def)

lemma butlast_concat_join:
  "butlast (concat (map (\<lambda>k. g k @ ''&'') ks)) = join ''&'' (map g ks)"
  by (induction ks rule: induct_list012) (simp_all add: butlast_append)

lemma buildQuery_join:
  "slice0m1 (foldl (appendParam ps) [] ks) =
     join ''&'' (map (\<lambda>k. k @ ''='' @ toStr (map_of ps k)) ks)"
  unfolding slice0m1_def foldl_appendParam append_Nil by (rule butlast_concat_join)

text \<open>
  A params object with no property called \<open>hasOwnProperty\<close> gives the \<open>key=value\<close> pairs
  in ascending order of the keys, joined by \<open>&\<close>; the values are not encoded.
\<close>

lemma handleQuery_params:
  assumes "''hasOwnProperty'' \<notin> fst ` set ps" and "\<not> truthy (id_q q)" and "params q = Some ps"
  shows "handleQuery q f =
           (Inr (), f\<lparr>queryParameters :=
              Some (join ''&'' (map (\<lambda>k. k @ ''='' @ toStr (map_of ps k)) (sort (map fst ps))))\<rparr>)"
  using assms by (simp add: handleQuery_defs ownKeys_def buildQuery_join)

lemma substituteId_params: "substituteId (q\<lparr>params := p\<rparr>) f = substituteId q f"
  by (simp add: substituteId_def split: option.splits)

lemma buildQueryParameters_key_order:
  assumes "distinct (map fst ps)" and "distinct (map fst ps')" and "set ps = set ps'"
  shows "buildQueryParameters (q\<lparr>params := Some ps\<rparr>) f =
         buildQueryParameters (q\<lparr>params := Some ps'\<rparr>) f"
proof -
  have m: "map_of ps = map_of ps'"
    using assms by (simp add: map_of_inject_set)
  have s: "set (map fst ps) = set (map fst ps')"
    using assms(3) by simp
  have "sort (map fst ps) = sort (map fst ps')"
    by (rule sorted_distinct_set_unique) (use assms s in simp_all)
  moreover have "appendParam ps = appendParam ps'"
    by (simp add: appendParam_def m fun_eq_iff)
  ultimately show ?thesis
    using s by (simp add: buildQueryParameters_def ownKeys_def)
qed

text \<open>The order in which the properties of \<open>params\<close> are enumerated has no effect.\<close>

lemma handleQuery_key_order:
  assumes "distinct (map fst ps)" and "distinct (map fst ps')" and "set ps = set ps'"
  shows "handleQuery (q\<lparr>params := Some ps\<rparr>) f = handleQuery (q\<lparr>params := Some ps'\<rparr>) f"
  by (simp add: handleQuery_def substituteId_params buildQueryParameters_key_order [OF assms]
      split: sum.splits)

lemma handleQuery_empty_params:
  "\<not> truthy (id_q q) \<Longrightarrow> params q = Some [] \<Longrightarrow>
     handleQuery q f = (Inr (), f\<lparr>queryParameters := Some []\<rparr>)"
  by (simp add: handleQuery_defs ownKeys_def slice0m1_def)

text \<open>Without \<open>params\<close>, \<open>handleQuery\<close> leaves \<open>this.queryParameters\<close> as it finds it.\<close>

lemma handleQuery_absent_params:
  "\<not> truthy (id_q q) \<Longrightarrow> params q = None \<Longrightarrow> handleQuery q f = (Inr (), f)"
  by (simp add: handleQuery_defs)

lemma handleQuery_hasOwnProperty:
  "\<not> truthy (id_q q) \<Longrightarrow> params q = Some ps \<Longrightarrow> ''hasOwnProperty'' \<in> fst ` set ps \<Longrightarrow>
     handleQuery q f = (Inl TypeError, f)"
  by (simp add: handleQuery_defs ownKeys_def)

text \<open>
  C6. The query string of \<open>{b: '2', a: '1'}\<close> is \<open>a=1&b=2\<close>. A later call without \<open>params\<close>
  on the same factory does not give an empty query string: the factory keeps \<open>a=1&b=2\<close>, and
  \<open>sign\<close> appends it to the path of the later call.
\<close>

theorem absent_params_keep_query:
  "handleQuery \<lparr>id_q = None, params = Some [(''b'', ''2''), (''a'', ''1'')]\<rparr> exampleFactory =
     (Inr (), exampleFactory\<lparr>queryParameters := Some ''a=1&b=2''\<rparr>)
   \<and> handleQuery \<lparr>id_q = None, params = None\<rparr>
       (setUrl ''/live/websites/campaign'' (exampleFactory\<lparr>queryParameters := Some ''a=1&b=2''\<rparr>)) =
     (Inr (), exampleFactory\<lparr>url := Some ''/live/websites/campaign'',
                             queryParameters := Some ''a=1&b=2''\<rparr>)
   \<and> fst (sign exampleCrypto utcWorld
            (exampleFactory\<lparr>url := Some ''/live/websites/campaign'',
                             queryParameters := Some ''a=1&b=2''\<rparr>)) =
     Inr \<lparr>resp_headers =
            \<lparr>date = Some ''Mon, 02 Jan 2017 15:04:05 GMT'',
             Authorization = Some ''USBL1-HMAC-SHA256 Credential=AK/20170102/usbl1_request, SignedHeaders=date;host, Signature=5555''\<rparr>,
          resp_url = Some ''/live/websites/campaign?a=1&b=2''\<rparr>"
proof -
  have d: "getDateTime utcWorld = (exampleDates, utcWorld\<lparr>reads := reads utcWorld + 3\<rparr>)"
    by (rule getDateTime_utc) (simp_all add: utcWorld_def)
  have a: "handleQuery \<lparr>id_q = None, params = Some [(''b'', ''2''), (''a'', ''1'')]\<rparr> exampleFactory =
     (Inr (), exampleFactory\<lparr>queryParameters := Some ''a=1&b=2''\<rparr>)"
    by (simp add: handleQuery_defs truthy_def ownKeys_def appendParam_def slice0m1_def toStr_def)
  have b: "handleQuery \<lparr>id_q = None, params = None\<rparr>
       (setUrl ''/live/websites/campaign'' (exampleFactory\<lparr>queryParameters := Some ''a=1&b=2''\<rparr>)) =
     (Inr (), exampleFactory\<lparr>url := Some ''/live/websites/campaign'',
                             queryParameters := Some ''a=1&b=2''\<rparr>)"
    by (simp add: handleQuery_defs truthy_def setUrl_def)
  have c: "fst (sign exampleCrypto utcWorld
            (exampleFactory\<lparr>url := Some ''/live/websites/campaign'',
                             queryParameters := Some ''a=1&b=2''\<rparr>)) =
     Inr \<lparr>resp_headers =
            \<lparr>date = Some ''Mon, 02 Jan 2017 15:04:05 GMT'',
             Authorization = Some ''USBL1-HMAC-SHA256 Credential=AK/20170102/usbl1_request, SignedHeaders=date;host, Signature=5555''\<rparr>,
          resp_url = Some ''/live/websites/campaign?a=1&b=2''\<rparr>"
    by (simp add: sign_unfold d example_signature truthy_def toStr_def Let_def)
      (simp add: example_defs)
  from a b c show ?thesis by (intro conjI)
qed

text \<open>
  C8. The headers that \<open>sign\<close> returns are as stated, but its \<open>url\<close> is not always the
  path alone when the call has built no query string. After a request for the feedback of
  button 42 with \<open>{limit: '5'}\<close>, the three calls \<open>setUrl\<close>, \<open>handleQuery({id: '7'})\<close> and
  \<open>sign\<close> for the stats of campaign 7 build no query string, and \<open>sign\<close> returns the url
  \<open>/live/websites/campaign/7/stats?limit=5\<close>.
\<close>

theorem sign_url_after_earlier_query:
  "handleQuery \<lparr>id_q = Some ''42'', params = Some [(''limit'', ''5'')]\<rparr>
      (setUrl ''/live/websites/button/:id/feedback'' (SignatureFactory ''AK'' ''SK'' ''data.usabilla.com'')) =
     (Inr (),
      (SignatureFactory ''AK'' ''SK'' ''data.usabilla.com'')
        \<lparr>url := Some ''/live/websites/button/42/feedback'', queryParameters := Some ''limit=5''\<rparr>)
   \<and> sign exampleCrypto utcWorld
       ((SignatureFactory ''AK'' ''SK'' ''data.usabilla.com'')
          \<lparr>url := Some ''/live/websites/button/42/feedback'', queryParameters := Some ''limit=5''\<rparr>) =
     (Inr \<lparr>resp_headers =
             \<lparr>date = Some ''Mon, 02 Jan 2017 15:04:05 GMT'',
              Authorization = Some ''USBL1-HMAC-SHA256 Credential=AK/20170102/usbl1_request, SignedHeaders=date;host, Signature=5555''\<rparr>,
           resp_url = Some ''/live/websites/button/42/feedback?limit=5''\<rparr>,
      (SignatureFactory ''AK'' ''SK'' ''data.usabilla.com'')
        \<lparr>url := Some ''/live/websites/button/42/feedback'', queryParameters := Some ''limit=5'',
          dates := Some exampleDates,
          headers := Some
            \<lparr>date = Some ''Mon, 02 Jan 2017 15:04:05 GMT'',
             Authorization = Some ''USBL1-HMAC-SHA256 Credential=AK/20170102/usbl1_request, SignedHeaders=date;host, Signature=5555''\<rparr>\<rparr>,
      utcWorld\<lparr>reads := 3\<rparr>)
   \<and> handleQuery \<lparr>id_q = Some ''7'', params = None\<rparr>
       (setUrl ''/live/websites/campaign/:id/stats''
          ((SignatureFactory ''AK'' ''SK'' ''data.usabilla.com'')
             \<lparr>url := Some ''/live/websites/button/42/feedback'', queryParameters := Some ''limit=5'',
               dates := Some exampleDates,
               headers := Some
                 \<lparr>date = Some ''Mon, 02 Jan 2017 15:04:05 GMT'',
                  Authorization = Some ''USBL1-HMAC-SHA256 Credential=AK/20170102/usbl1_request, SignedHeaders=date;host, Signature=5555''\<rparr>\<rparr>)) =
     (Inr (),
      (SignatureFactory ''AK'' ''SK'' ''data.usabilla.com'')
        \<lparr>url := Some ''/live/websites/campaign/7/stats'', queryParameters := Some ''limit=5'',
          dates := Some exampleDates,
          headers := Some
            \<lparr>date = Some ''Mon, 02 Jan 2017 15:04:05 GMT'',
             Authorization = Some ''USBL1-HMAC-SHA256 Credential=AK/20170102/usbl1_request, SignedHeaders=date;host, Signature=5555''\<rparr>\<rparr>)
   \<and> fst (sign exampleCrypto (utcWorld\<lparr>reads := 3\<rparr>)
       ((SignatureFactory ''AK'' ''SK'' ''data.usabilla.com'')
          \<lparr>url := Some ''/live/websites/campaign/7/stats'', queryParameters := Some ''limit=5'',
            dates := Some exampleDates,
            headers := Some
              \<lparr>date = Some ''Mon, 02 Jan 2017 15:04:05 GMT'',
               Authorization = Some ''USBL1-HMAC-SHA256 Credential=AK/20170102/usbl1_request, SignedHeaders=date;host, Signature=5555''\<rparr>\<rparr>)) =
     Inr \<lparr>resp_headers =
            \<lparr>date = Some ''Mon, 02 Jan 2017 15:04:05 GMT'',
             Authorization = Some ''USBL1-HMAC-SHA256 Credential=AK/20170102/usbl1_request, SignedHeaders=date;host, Signature=5555''\<rparr>,
          resp_url = Some ''/live/websites/campaign/7/stats?limit=5''\<rparr>"
proof -
  let ?f0 = "SignatureFactory ''AK'' ''SK'' ''data.usabilla.com''"
  let ?hs = "\<lparr>date = Some ''Mon, 02 Jan 2017 15:04:05 GMT'',
             Authorization = Some ''USBL1-HMAC-SHA256 Credential=AK/20170102/usbl1_request, SignedHeaders=date;host, Signature=5555''\<rparr>"
  let ?f1 = "?f0\<lparr>url := Some ''/live/websites/button/42/feedback'', queryParameters := Some ''limit=5''\<rparr>"
  let ?f2 = "?f0\<lparr>url := Some ''/live/websites/button/42/feedback'', queryParameters := Some ''limit=5'',
          dates := Some exampleDates, headers := Some ?hs\<rparr>"
  let ?f3 = "?f0\<lparr>url := Some ''/live/websites/campaign/7/stats'', queryParameters := Some ''limit=5'',
          dates := Some exampleDates, headers := Some ?hs\<rparr>"
  let ?w1 = "utcWorld\<lparr>reads := 3\<rparr>"
  have d0: "getDateTime utcWorld = (exampleDates, ?w1)"
    by (subst getDateTime_utc) (simp_all add: utcWorld_def)
  have d1: "getDateTime ?w1 = (exampleDates, ?w1\<lparr>reads := reads ?w1 + 3\<rparr>)"
    by (rule getDateTime_utc) (simp_all add: utcWorld_def)
  have a: "handleQuery \<lparr>id_q = Some ''42'', params = Some [(''limit'', ''5'')]\<rparr>
      (setUrl ''/live/websites/button/:id/feedback'' ?f0) = (Inr (), ?f1)"
    by (simp add: handleQuery_defs truthy_def toStr_def replace_def ownKeys_def appendParam_def
        slice0m1_def setUrl_def SignatureFactory_def)
  have b: "sign exampleCrypto utcWorld ?f1 =
      (Inr \<lparr>resp_headers = ?hs, resp_url = Some ''/live/websites/button/42/feedback?limit=5''\<rparr>, ?f2, ?w1)"
    by (simp add: sign_unfold d0 example_signature truthy_def toStr_def Let_def)
      (simp add: SignatureFactory_def exampleDates_def)
  have c: "handleQuery \<lparr>id_q = Some ''7'', params = None\<rparr>
      (setUrl ''/live/websites/campaign/:id/stats'' ?f2) = (Inr (), ?f3)"
    by (simp add: handleQuery_defs truthy_def toStr_def replace_def setUrl_def SignatureFactory_def)
  have e: "fst (sign exampleCrypto ?w1 ?f3) =
      Inr \<lparr>resp_headers = ?hs, resp_url = Some ''/live/websites/campaign/7/stats?limit=5''\<rparr>"
    by (simp add: sign_unfold d1 example_signature truthy_def toStr_def Let_def)
      (simp add: SignatureFactory_def exampleDates_def)
  from a b c e show ?thesis by (intro conjI)
qed

subsection \<open>The id\<close>

lemma splitAtFirst_Some: "splitAtFirst pat s = Some (pre, post) \<Longrightarrow> s = pre @ pat @ post"
proof (induction s arbitrary: pre)
  case Nil
  then show ?case by (simp split: if_splits)
next
  case (Cons c cs)
  show ?case
  proof (cases "take (length pat) (c # cs) = pat")
    case True
    with Cons.prems have "pre = []" "post = drop (length pat) (c # cs)" by simp_all
    with True show ?thesis by (metis append_Nil append_take_drop_id)
  next
    case False
    with Cons.prems obtain pre' where "splitAtFirst pat cs = Some (pre', post)" "pre = c # pre'"
      by (auto split: option.splits)
    with Cons.IH show ?thesis by simp
  qed
qed

lemma getSubstitution_plain:
  "CHR ''$'' \<notin> set r \<Longrightarrow> getSubstitution matched pre post r = r"
  by (induction matched pre post r rule: getSubstitution.induct) auto

lemma replace_plain:
  "splitAtFirst pat s = Some (pre, post) \<Longrightarrow> CHR ''$'' \<notin> set r \<Longrightarrow> replace s pat r = pre @ r @ post"
  by (simp add: replace_def getSubstitution_plain)

text \<open>
  The id \<open>*\<close> puts \<open>%2A\<close> in the place of the first \<open>:id\<close>; another non-empty id with no
  dollar sign is put there as it is; without an id, or with the empty id, the path stays.
\<close>

lemma handleQuery_id_wildcard:
  assumes "url f = Some u" and "splitAtFirst '':id'' u = Some (pre, post)"
  shows "handleQuery \<lparr>id_q = Some ''*'', params = None\<rparr> f = (Inr (), f\<lparr>url := Some (pre @ ''%2A'' @ post)\<rparr>)"
  using assms by (simp add: handleQuery_defs truthy_def replace_plain)

lemma handleQuery_id_plain:
  assumes "url f = Some u" and "splitAtFirst '':id'' u = Some (pre, post)"
    and "i \<noteq> []" and "i \<noteq> ''*''" and "CHR ''$'' \<notin> set i"
  shows "handleQuery \<lparr>id_q = Some i, params = None\<rparr> f = (Inr (), f\<lparr>url := Some (pre @ i @ post)\<rparr>)"
  using assms by (simp add: handleQuery_defs truthy_def toStr_def replace_plain)

lemma handleQuery_no_id:
  "i = None \<or> i = Some [] \<Longrightarrow> handleQuery \<lparr>id_q = i, params = None\<rparr> f = (Inr (), f)"
  by (auto simp add: handleQuery_defs truthy_def)

lemma handleQuery_wildcard_example:
  "handleQuery \<lparr>id_q = Some ''*'', params = None\<rparr> (setUrl ''/x/:id/y'' f) = (Inr (), setUrl ''/x/%2A/y'' f)"
  by (simp add: handleQuery_defs truthy_def replace_def setUrl_def)

text \<open>
  C7. An id is not always substituted verbatim: \<open>replace\<close> expands the dollar patterns of
  its replacement text. The id \<open>$&\<close> leaves \<open>/x/:id/y\<close> as it is, and the id \<open>a$$b\<close> gives
  \<open>/x/a$b/y\<close>.
\<close>

theorem handleQuery_dollar_id:
  "handleQuery \<lparr>id_q = Some ''$&'', params = None\<rparr> (setUrl ''/x/:id/y'' f) =
     (Inr (), setUrl ''/x/:id/y'' f)
   \<and> handleQuery \<lparr>id_q = Some ''a$$b'', params = None\<rparr> (setUrl ''/x/:id/y'' f) =
     (Inr (), setUrl ''/x/a$b/y'' f)"
  by (simp add: handleQuery_defs truthy_def toStr_def replace_def setUrl_def)

section \<open>\<open>Resource.get\<close> and the client\<close>

lemma get_Inr:
  assumes "handleQuery (case qo of None \<Rightarrow> emptyQuery | Some q \<Rightarrow> q) (setUrl (res_url r) f) = (Inr (), f2)"
    and "getDateTime w = (d, w')"
    and "getSignature c (f2\<lparr>dates := Some d\<rparr>) = Inr sg"
  shows "get c r qo w f =
    (Inr \<lparr>opt_url = getBaseUrl r @
              toStr (if truthy (queryParameters f2)
                     then Some (toStr (url f2) @ ''?'' @ toStr (queryParameters f2)) else url f2),
           opt_headers =
             \<lparr>date = Some (usbldate d),
              Authorization =
                Some (''USBL1-HMAC-SHA256 Credential='' @ accessKey f2 @ ''/'' @ shortdate d @
                      ''/usbl1_request, SignedHeaders=date;host, Signature='' @ sg)\<rparr>\<rparr>,
     f2\<lparr>dates := Some d,
        headers := Some \<lparr>date = Some (usbldate d),
              Authorization =
                Some (''USBL1-HMAC-SHA256 Credential='' @ accessKey f2 @ ''/'' @ shortdate d @
                      ''/usbl1_request, SignedHeaders=date;host, Signature='' @ sg)\<rparr>\<rparr>,
     w')"
  using assms by (simp add: get_def sign_unfold Let_def)

lemmas client_defs = Usabilla_def WebsitesProduct_def ButtonsResource_def CampaignsResource_def
  ButtonFeedbackResource_def CampaignsResultsResource_def CampaignsStatsResource_def Resource_def
  SignatureFactory_def getBaseUrl_def Let_def toStr_def

text \<open>
  C2. A signing call is not independent of the calls before it. On one client,
  \<open>buttons.get({params: {limit: '5'}})\<close> followed by \<open>campaigns.get()\<close> requests
  \<open>/live/websites/campaign?limit=5\<close>; on a new client, \<open>campaigns.get()\<close> requests
  \<open>/live/websites/campaign\<close>.
\<close>

theorem stale_query_between_requests:
  "map opt_url (fst (run exampleCrypto
      [Get Buttons (Some \<lparr>id_q = None, params = Some [(''limit'', ''5'')]\<rparr>), Get Campaigns None]
      (Usabilla ''AK'' ''SK'', utcWorld))) =
     [''https://data.usabilla.com/live/websites/button?limit=5'',
      ''https://data.usabilla.com/live/websites/campaign?limit=5'']
   \<and> map opt_url (fst (run exampleCrypto [Get Campaigns None] (Usabilla ''AK'' ''SK'', utcWorld))) =
     [''https://data.usabilla.com/live/websites/campaign'']"
proof -
  let ?f0 = "factory (Usabilla ''AK'' ''SK'')"
  let ?p = "websites (Usabilla ''AK'' ''SK'')"
  let ?w1 = "utcWorld\<lparr>reads := reads utcWorld + 3\<rparr>"
  let ?a = "Some ''USBL1-HMAC-SHA256 Credential=AK/20170102/usbl1_request, SignedHeaders=date;host, Signature=5555''"
  let ?hs = "\<lparr>date = Some ''Mon, 02 Jan 2017 15:04:05 GMT'', Authorization = ?a\<rparr>"
  let ?f1 = "?f0\<lparr>url := Some ''/live/websites/button'', queryParameters := Some ''limit=5''\<rparr>"
  let ?f1' = "?f1\<lparr>dates := Some exampleDates, headers := Some ?hs\<rparr>"
  let ?f2 = "?f1'\<lparr>url := Some ''/live/websites/campaign''\<rparr>"
  let ?f3 = "?f0\<lparr>url := Some ''/live/websites/campaign''\<rparr>"
  have d0: "getDateTime utcWorld = (exampleDates, ?w1)"
    by (rule getDateTime_utc) (simp_all add: utcWorld_def)
  have d1: "getDateTime ?w1 = (exampleDates, ?w1\<lparr>reads := reads ?w1 + 3\<rparr>)"
    by (rule getDateTime_utc) (simp_all add: utcWorld_def)
  have h1: "handleQuery (case Some \<lparr>id_q = None, params = Some [(''limit'', ''5'')]\<rparr> of
              None \<Rightarrow> emptyQuery | Some q \<Rightarrow> q)
            (setUrl (res_url (resourceAt ?p Buttons)) ?f0) = (Inr (), ?f1)"
    by (simp add: handleQuery_defs truthy_def ownKeys_def appendParam_def slice0m1_def setUrl_def
        client_defs)
  have g1: "get exampleCrypto (resourceAt ?p Buttons)
      (Some \<lparr>id_q = None, params = Some [(''limit'', ''5'')]\<rparr>) utcWorld ?f0 =
      (Inr \<lparr>opt_url = ''https://data.usabilla.com/live/websites/button?limit=5'', opt_headers = ?hs\<rparr>,
       ?f1', ?w1)"
    by (subst get_Inr [OF h1 d0 example_signature])
      (simp_all add: client_defs truthy_def exampleDates_def)
  have h2: "handleQuery (case None of None \<Rightarrow> emptyQuery | Some q \<Rightarrow> q)
            (setUrl (res_url (resourceAt ?p Campaigns)) ?f1') = (Inr (), ?f2)"
    by (simp add: handleQuery_defs truthy_def emptyQuery_def setUrl_def client_defs)
  have g2: "get exampleCrypto (resourceAt ?p Campaigns) None ?w1 ?f1' =
      (Inr \<lparr>opt_url = ''https://data.usabilla.com/live/websites/campaign?limit=5'', opt_headers = ?hs\<rparr>,
       ?f2\<lparr>dates := Some exampleDates, headers := Some ?hs\<rparr>, ?w1\<lparr>reads := reads ?w1 + 3\<rparr>)"
    by (subst get_Inr [OF h2 d1 example_signature])
      (simp_all add: client_defs truthy_def exampleDates_def)
  have h3: "handleQuery (case None of None \<Rightarrow> emptyQuery | Some q \<Rightarrow> q)
            (setUrl (res_url (resourceAt ?p Campaigns)) ?f0) = (Inr (), ?f3)"
    by (simp add: handleQuery_defs truthy_def emptyQuery_def setUrl_def client_defs)
  have g3: "get exampleCrypto (resourceAt ?p Campaigns) None utcWorld ?f0 =
      (Inr \<lparr>opt_url = ''https://data.usabilla.com/live/websites/campaign'', opt_headers = ?hs\<rparr>,
       ?f3\<lparr>dates := Some exampleDates, headers := Some ?hs\<rparr>, ?w1)"
    by (subst get_Inr [OF h3 d0 example_signature])
      (simp_all add: client_defs truthy_def exampleDates_def)
  have w: "websites ((Usabilla ''AK'' ''SK'')\<lparr>factory := ?f1'\<rparr>) = ?p"
    by simp
  show ?thesis
    by (simp add: g1 g2 g3 w del: resourceAt.simps)
qed

subsection \<open>What the calls leave unchanged\<close>

lemma configure_frame:
  "factory (configure options u) = factory u" "websites (configure options u) = websites u"
  by (simp_all add: configure_def)

lemma substituteId_frame:
  assumes "substituteId q f = Inr f'"
  shows "host f' = host f \<and> method_f f' = method_f f \<and> accessKey f' = accessKey f
         \<and> secretKey f' = secretKey f"
  using assms by (auto simp add: substituteId_def Let_def split: if_splits option.splits)

lemma buildQueryParameters_frame:
  "host (snd (buildQueryParameters q f)) = host f"
  "method_f (snd (buildQueryParameters q f)) = method_f f"
  "accessKey (snd (buildQueryParameters q f)) = accessKey f"
  "secretKey (snd (buildQueryParameters q f)) = secretKey f"
  by (simp_all add: buildQueryParameters_def split: option.splits sum.splits)

lemma handleQuery_frame:
  "host (snd (handleQuery q f)) = host f \<and> method_f (snd (handleQuery q f)) = method_f f
   \<and> accessKey (snd (handleQuery q f)) = accessKey f \<and> secretKey (snd (handleQuery q f)) = secretKey f"
  by (auto simp add: handleQuery_def buildQueryParameters_frame dest: substituteId_frame
      split: sum.splits)

lemma get_frame:
  "host (fst (snd (get c r qo w f))) = host f \<and> method_f (fst (snd (get c r qo w f))) = method_f f
   \<and> accessKey (fst (snd (get c r qo w f))) = accessKey f
   \<and> secretKey (fst (snd (get c r qo w f))) = secretKey f"
proof -
  let ?q = "case qo of None \<Rightarrow> emptyQuery | Some q' \<Rightarrow> q'"
  let ?h = "handleQuery ?q (setUrl (res_url r) f)"
  have h: "host (snd ?h) = host f \<and> method_f (snd ?h) = method_f f
      \<and> accessKey (snd ?h) = accessKey f \<and> secretKey (snd ?h) = secretKey f"
    using handleQuery_frame [of ?q "setUrl (res_url r) f"] by (simp add: setUrl_def)
  have "fst (snd (get c r qo w f)) = snd ?h
      \<or> fst (snd (get c r qo w f)) = fst (snd (sign c w (snd ?h)))"
    by (auto simp add: get_def Let_def split: prod.splits sum.splits)
  with h show ?thesis
    by (auto simp add: sign_frame)
qed

lemma get_opt_url:
  "get c r qo w f = (Inr opts, f', w') \<Longrightarrow> \<exists>rest. opt_url opts = getBaseUrl r @ rest"
  by (auto simp add: get_def Let_def split: prod.splits sum.splits)

lemma resourceAt_Usabilla:
  "getBaseUrl (resourceAt (websites (Usabilla ak sk)) rt) = ''https://data.usabilla.com''"
  by (cases rt) (simp_all add: client_defs)

lemma Usabilla_factory:
  "host (factory (Usabilla ak sk)) = ''data.usabilla.com''" "method_f (factory (Usabilla ak sk)) = None"
  by (simp_all add: client_defs)

lemma perform_frame:
  assumes "perform c x (u, w) = (res, u', w')"
  shows "websites u' = websites u \<and> host (factory u') = host (factory u)
         \<and> method_f (factory u') = method_f (factory u)"
proof (cases x)
  case (Configure options)
  with assms show ?thesis by (auto simp add: configure_frame)
next
  case (Get rt qo)
  with assms get_frame [of c "resourceAt (websites u) rt" qo w "factory u"] show ?thesis
    by (auto split: prod.splits)
qed

lemma perform_request:
  assumes "perform c x (u, w) = (Some (Inr opts), u', w')"
  shows "\<exists>rt rest. opt_url opts = getBaseUrl (resourceAt (websites u) rt) @ rest"
proof (cases x)
  case (Configure options)
  with assms show ?thesis by simp
next
  case (Get rt qo)
  with assms obtain f' where "get c (resourceAt (websites u) rt) qo w (factory u) = (Inr opts, f', w')"
    by (auto split: prod.splits)
  then show ?thesis by (blast dest: get_opt_url)
qed

lemma run_frame:
  "run c xs (u, w) = (reqs, u', w') \<Longrightarrow>
     websites u' = websites u \<and> host (factory u') = host (factory u)
     \<and> method_f (factory u') = method_f (factory u)
     \<and> (\<forall>opts \<in> set reqs. \<exists>rt rest. opt_url opts = getBaseUrl (resourceAt (websites u) rt) @ rest)"
proof (induction xs arbitrary: u w reqs u' w')
  case Nil
  then show ?case by simp
next
  case (Cons x xs)
  obtain res u1 w1 where p: "perform c x (u, w) = (res, u1, w1)"
    by (cases "perform c x (u, w)") auto
  obtain reqs1 u2 w2 where r: "run c xs (u1, w1) = (reqs1, u2, w2)"
    by (cases "run c xs (u1, w1)") auto
  from Cons.prems p r have e: "u' = u2"
    "reqs = (case res of Some (Inr opts) \<Rightarrow> [opts] | _ \<Rightarrow> []) @ reqs1"
    by simp_all
  from perform_frame [OF p] have f1: "websites u1 = websites u"
    "host (factory u1) = host (factory u)" "method_f (factory u1) = method_f (factory u)"
    by simp_all
  from Cons.IH [OF r] have f2: "websites u2 = websites u1"
    "host (factory u2) = host (factory u1)" "method_f (factory u2) = method_f (factory u1)"
    "\<forall>opts \<in> set reqs1. \<exists>rt rest. opt_url opts = getBaseUrl (resourceAt (websites u1) rt) @ rest"
    by simp_all
  have "\<forall>opts \<in> set (case res of Some (Inr opts) \<Rightarrow> [opts] | _ \<Rightarrow> []).
          \<exists>rt rest. opt_url opts = getBaseUrl (resourceAt (websites u) rt) @ rest"
    using p by (auto split: option.splits sum.splits dest: perform_request)
  with e f1 f2 show ?case by auto
qed

lemma canonicalString_GET_host:
  assumes "canonicalString c f = Inr s" and "method_f f = None" and "host f = ''data.usabilla.com''"
  shows "\<exists>a b. s = ''GET\<newline>'' @ a @ ''\<newline>host:data.usabilla.com\<newline>\<newline>date;host\<newline>'' @ b"
proof -
  obtain raw where r: "sha256 c [] = Inr raw"
    using assms(1) by (cases "sha256 c []") (simp_all add: canonicalString_cases)
  obtain d where d: "dates f = Some d"
    using assms(1) r by (cases "dates f") (simp_all add: canonicalString_cases)
  have "s = ''GET\<newline>'' @ (elem (url f) @ ''\<newline>'' @ elem (queryParameters f) @ ''\<newline>'' @
          ''date:'' @ usbldate d) @ ''\<newline>host:data.usabilla.com\<newline>\<newline>date;host\<newline>'' @ hex raw"
    using assms r d by (simp add: canonicalString_cases truthy_def)
  then show ?thesis by blast
qed

text \<open>
  C10. \<open>configure\<close> changes the client's own \<open>config\<close> and nothing else. After any sequence
  of \<open>configure\<close> and \<open>get\<close> calls on a new client, the resources are those of the new
  client, every base URL is \<open>https://data.usabilla.com\<close>, every request that was issued
  went to a URL beginning with it, the factory's host is \<open>data.usabilla.com\<close> and its
  method is unset, so that its canonical string begins with \<open>GET\<close> and has the host line
  \<open>host:data.usabilla.com\<close>.
\<close>

theorem configure_inert:
  assumes "run c calls (Usabilla ak sk, w) = (reqs, u', w')"
  shows "factory (configure options u') = factory u'
       \<and> websites (configure options u') = websites u'
       \<and> websites u' = websites (Usabilla ak sk)
       \<and> host (factory u') = ''data.usabilla.com''
       \<and> method_f (factory u') = None
       \<and> (\<forall>rt. getBaseUrl (resourceAt (websites u') rt) = ''https://data.usabilla.com'')
       \<and> (\<forall>opts \<in> set reqs. \<exists>rest. opt_url opts = ''https://data.usabilla.com'' @ rest)
       \<and> (\<forall>s. canonicalString c (factory u') = Inr s \<longrightarrow>
              (\<exists>a b. s = ''GET\<newline>'' @ a @
                         ''\<newline>host:data.usabilla.com\<newline>\<newline>date;host\<newline>'' @ b))"
proof -
  from run_frame [OF assms] have
    w: "websites u' = websites (Usabilla ak sk)" and
    h: "host (factory u') = ''data.usabilla.com''" and
    m: "method_f (factory u') = None" and
    r: "\<forall>opts \<in> set reqs. \<exists>rest. opt_url opts = ''https://data.usabilla.com'' @ rest"
    by (simp_all add: Usabilla_factory resourceAt_Usabilla)
  from w have b: "\<forall>rt. getBaseUrl (resourceAt (websites u') rt) = ''https://data.usabilla.com''"
    by (simp add: resourceAt_Usabilla)
  have s: "\<forall>s. canonicalString c (factory u') = Inr s \<longrightarrow>
              (\<exists>a b. s = ''GET\<newline>'' @ a @
                         ''\<newline>host:data.usabilla.com\<newline>\<newline>date;host\<newline>'' @ b)"
    using canonicalString_GET_host [OF _ m h] by blast
  from w h m r b s show ?thesis
    by (simp add: configure_frame)
qed

text \<open>
  A client configured with another host, protocol and method keeps them in its \<open>config\<close>
  and requests \<open>https://data.usabilla.com/live/websites/button\<close> all the same.
\<close>

theorem configure_inert_witness:
  "usabilla_config (fst (snd (run exampleCrypto
      [Configure [(''host'', ''example.org''), (''protocol'', ''http''), (''method'', ''POST'')],
       Get Buttons None] (Usabilla ''AK'' ''SK'', utcWorld)))) ''host'' = Some ''example.org''
   \<and> host (factory (fst (snd (run exampleCrypto
      [Configure [(''host'', ''example.org''), (''protocol'', ''http''), (''method'', ''POST'')],
       Get Buttons None] (Usabilla ''AK'' ''SK'', utcWorld))))) = ''data.usabilla.com''
   \<and> map opt_url (fst (run exampleCrypto
      [Configure [(''host'', ''example.org''), (''protocol'', ''http''), (''method'', ''POST'')],
       Get Buttons None] (Usabilla ''AK'' ''SK'', utcWorld))) =
     [''https://data.usabilla.com/live/websites/button'']"
proof -
  let ?opts = "[(''host'', ''example.org''), (''protocol'', ''http''), (''method'', ''POST'')]"
  let ?calls = "[Configure ?opts, Get Buttons None]"
  let ?u0 = "Usabilla ''AK'' ''SK''"
  let ?u1 = "configure ?opts ?u0"
  let ?f0 = "factory ?u0"
  let ?w1 = "utcWorld\<lparr>reads := reads utcWorld + 3\<rparr>"
  let ?a = "Some ''USBL1-HMAC-SHA256 Credential=AK/20170102/usbl1_request, SignedHeaders=date;host, Signature=5555''"
  let ?hs = "\<lparr>date = Some ''Mon, 02 Jan 2017 15:04:05 GMT'', Authorization = ?a\<rparr>"
  let ?f1 = "?f0\<lparr>url := Some ''/live/websites/button''\<rparr>"
  let ?f2 = "?f1\<lparr>dates := Some exampleDates, headers := Some ?hs\<rparr>"
  let ?req = "\<lparr>opt_url = ''https://data.usabilla.com/live/websites/button'', opt_headers = ?hs\<rparr>"
  have d0: "getDateTime utcWorld = (exampleDates, ?w1)"
    by (rule getDateTime_utc) (simp_all add: utcWorld_def)
  have h: "handleQuery (case None of None \<Rightarrow> emptyQuery | Some q \<Rightarrow> q)
            (setUrl (res_url (resourceAt (websites ?u1) Buttons)) (factory ?u1)) = (Inr (), ?f1)"
    by (simp add: handleQuery_defs truthy_def emptyQuery_def setUrl_def client_defs configure_frame)
  have g: "get exampleCrypto (resourceAt (websites ?u1) Buttons) None utcWorld (factory ?u1) =
      (Inr ?req, ?f2, ?w1)"
    by (subst get_Inr [OF h d0 example_signature])
      (simp_all add: client_defs truthy_def exampleDates_def configure_frame)
  have r: "run exampleCrypto ?calls (?u0, utcWorld) = ([?req], ?u1\<lparr>factory := ?f2\<rparr>, ?w1)"
    by (simp add: g del: resourceAt.simps)
  have c: "usabilla_config (?u1\<lparr>factory := ?f2\<rparr>) ''host'' = Some ''example.org''"
    by (simp add: configure_def assign_def)
  from configure_inert [OF r, of "[]"]
  have "host (factory (?u1\<lparr>factory := ?f2\<rparr>)) = ''data.usabilla.com''"
    by (elim conjE)
  with c show ?thesis
    unfolding r by simp
qed

end
